theory Spec2Isabelle
  imports Complex_Main "HOL-Library.Sublist"
begin

section \<open>JavaScript values\<close>

text \<open>
  The scorers of \<^verbatim>\<open>app/api/analyze/route.js\<close> read their input through JavaScript
  conditions. A string that may be \<^verbatim>\<open>null\<close> or \<^verbatim>\<open>undefined\<close> is a
  \<open>string option\<close>; as a condition it holds when it is there and not empty.
  A JavaScript string is a sequence of UTF-16 code units and \<^verbatim>\<open>length\<close> counts them;
  a \<open>char\<close> of the model stands for one code unit.
\<close>

definition truthy :: "string option \<Rightarrow> bool" where
  "truthy v = (case v of None \<Rightarrow> False | Some s \<Rightarrow> s \<noteq> [])"

text \<open>
  \<^verbatim>\<open>a?.f\<close> read as a condition: \<^verbatim>\<open>undefined\<close>, hence false, when \<^verbatim>\<open>a\<close> is missing.
\<close>

definition opt :: "'a option \<Rightarrow> ('a \<Rightarrow> bool) \<Rightarrow> bool" where
  "opt a f = (case a of None \<Rightarrow> False | Some x \<Rightarrow> f x)"

text \<open>
  A number read through an optional chain: missing somewhere on the way
  (\<open>Undefined\<close>), \<^verbatim>\<open>null\<close>, or a number. Numbers are modelled as reals; the
  performance lab reports its category scores in hundredths, on which the products and
  comparisons below are the same in double precision.
\<close>

datatype jsnum = Undefined | Null | Num real

text \<open>\<^verbatim>\<open>x || 0\<close>: every falsy value becomes 0.\<close>

fun orZero :: "jsnum \<Rightarrow> real" where
  "orZero Undefined = 0"
| "orZero Null = 0"
| "orZero (Num x) = x"

text \<open>
  \<^verbatim>\<open>Math.round\<close> rounds to the nearest integer, a tie towards plus infinity;
  \<^verbatim>\<open>null\<close> converts to 0 in a product.
\<close>

definition round_js :: "real \<Rightarrow> int" where
  "round_js x = \<lfloor>x + 1 / 2\<rfloor>"

fun toNumber :: "jsnum \<Rightarrow> real" where
  "toNumber Null = 0"
| "toNumber (Num x) = x"
| "toNumber Undefined = 0"

text \<open>
  JSON values, as \<^verbatim>\<open>JSON.parse\<close> returns them. An object is the list of its
  members, each key once.
\<close>

datatype json =
    JNull
  | JBool bool
  | JNum real
  | JStr string
  | JArr "json list"
  | JObj "(string \<times> json) list"

section \<open>The data model\<close>

record scored =
  score :: int

record detailed_check = scored +
  name :: string
  status :: string
  maxScore :: int

record flagged =
  detected :: bool

record graded = flagged +
  confidence :: string

record vendor_detection = graded +
  providers :: "string list"

record tool_detection = graded +
  types :: "string list"

record reviews = flagged +
  hasStarRating :: bool

record schema_entry =
  type :: string
  schemaType :: json
  data :: json

record schema_markup =
  found :: bool
  count :: nat
  schemas :: "schema_entry list"
  hasLocalBusiness :: bool
  hasFAQSchema :: bool
  hasReviewSchema :: bool
  hasServiceSchema :: bool

record meta_tags =
  title :: "string option"
  description :: "string option"
  ogTitle :: "string option"
  ogDescription :: "string option"
  canonical :: "string option"
  robots :: "string option"

record headings =
  h1 :: "string list"
  h2 :: "string list"
  h3 :: "string list"

record local_business_info =
  phone :: "string option"
  hasAddress :: bool
  hasHours :: bool

record aeo_indicators =
  hasDefinitiveStatements :: bool
  hasQAFormat :: bool
  hasStructuredLists :: bool
  hasServiceDescriptions :: bool
  hasLocalKeywords :: bool
  hasExpertiseIndicators :: bool
  hasProcessDescription :: bool
  hasComparisonContent :: bool
  hasStatistics :: bool
  hasAuthorAttribution :: bool

text \<open>
  The object \<^verbatim>\<open>scrapeWebsiteData\<close> returns: either every field but
  \<^verbatim>\<open>error\<close>, built from the response, or \<^verbatim>\<open>error\<close> alone, the message of
  the exception caught. A field the scorers read through \<^verbatim>\<open>?.\<close> or \<^verbatim>\<open>||\<close>
  may be missing and is an option. The three detector summaries are read without a guard,
  after the test of \<^verbatim>\<open>error\<close>; they are plain fields, so the record does not
  hold an object that lacks them and whose \<^verbatim>\<open>error\<close> is empty (a failure of the
  fetch or of the platform always carries a message). \<^verbatim>\<open>contactInfo\<close> is read by no
  scorer and is left out.
\<close>

record website_data =
  error :: "string option"
  html :: "string option"
  headers :: "(string \<rightharpoonup> string) option"
  hasHttps :: bool
  hasChatbot :: vendor_detection
  hasVoiceAgent :: vendor_detection
  hasCalculator :: tool_detection
  schemaMarkup :: "schema_markup option"
  metaTags :: "meta_tags option"
  headings :: "headings option"
  hasFAQ :: bool
  localBusinessInfo :: "local_business_info option"
  hasReviews :: "reviews option"
  aeoIndicators :: "aeo_indicators option"

text \<open>\<^verbatim>\<open>data.html || ''\<close>.\<close>

definition htmlOf :: "website_data \<Rightarrow> string" where
  "htmlOf d = (case html d of None \<Rightarrow> [] | Some s \<Rightarrow> s)"

text \<open>
  The performance lab's report, \<^verbatim>\<open>null\<close> when the request failed (\<open>None\<close>). The
  two fields are the chains \<^verbatim>\<open>lighthouseResult?.categories?.performance?.score\<close>
  and \<^verbatim>\<open>lighthouseResult?.categories?.accessibility?.score\<close>.
\<close>

record pagespeed =
  performance_score :: jsnum
  accessibility_score :: jsnum

definition performanceScore :: "pagespeed option \<Rightarrow> jsnum" where
  "performanceScore p = (case p of None \<Rightarrow> Undefined | Some r \<Rightarrow> performance_score r)"

definition accessibilityScore :: "pagespeed option \<Rightarrow> jsnum" where
  "accessibilityScore p = (case p of None \<Rightarrow> Undefined | Some r \<Rightarrow> accessibility_score r)"

text \<open>
  What one block of a scorer produces: its detailed check, the flag it stores in
  \<^verbatim>\<open>checks\<close>, and the issues and recommendations it pushes. The texts written only
  for the report (\<^verbatim>\<open>details\<close>, \<^verbatim>\<open>whyItMatters\<close>, \<^verbatim>\<open>recommendation\<close>,
  \<^verbatim>\<open>reasoning\<close>, \<^verbatim>\<open>testQuery\<close>) decide no score, status or issue and are left out.
\<close>

record block =
  chk :: detailed_check
  flag :: bool
  pushed_issues :: "string list"
  pushed_recommendations :: "string list"

text \<open>
  What every scorer returns: the score, the issues, and the \<^verbatim>\<open>checks\<close> object as
  the list of its entries in insertion order (empty when the scorer returns none).
\<close>

record category_score = scored +
  issues :: "string list"
  checks :: "(string \<times> bool) list"

record detailed_score = category_score +
  detailedChecks :: "detailed_check list"

record llm_context =
  wouldRecommend :: bool
  prediction :: string

record aeo_result = detailed_score +
  recommendations :: "string list"
  llmContext :: "llm_context option"

section \<open>The AEO/GEO scorer\<close>

text \<open>Schema Markup (20 points).\<close>

definition aeo_schemaCheck :: "website_data \<Rightarrow> block" where
  "aeo_schemaCheck d =
     (if opt (schemaMarkup d) found then
        \<lparr>chk = \<lparr>score = 10 + (if opt (schemaMarkup d) hasLocalBusiness then 5 else 0)
                           + (if opt (schemaMarkup d) hasFAQSchema then 5 else 0),
                 name = ''Schema Markup (Structured Data)'',
                 status = (if opt (schemaMarkup d) hasFAQSchema then ''good'' else ''partial''),
                 maxScore = 20\<rparr>,
         flag = True,
         pushed_issues = [],
         pushed_recommendations = []\<rparr>
      else
        \<lparr>chk = \<lparr>score = 0, name = ''Schema Markup (Structured Data)'',
                 status = ''missing'', maxScore = 20\<rparr>,
         flag = False,
         pushed_issues =
           [''No structured data/schema markup - LLMs cannot easily parse your business info''],
         pushed_recommendations = [''Add LocalBusiness and FAQPage schema markup'']\<rparr>)"

text \<open>FAQ Content (15 points).\<close>

definition aeo_faqCheck :: "website_data \<Rightarrow> string \<Rightarrow> block" where
  "aeo_faqCheck d industry =
     (if hasFAQ d \<or> opt (schemaMarkup d) hasFAQSchema then
        (if opt (schemaMarkup d) hasFAQSchema then
           \<lparr>chk = \<lparr>score = 15, name = ''FAQ Content'', status = ''good'', maxScore = 15\<rparr>,
            flag = True, pushed_issues = [], pushed_recommendations = []\<rparr>
         else
           \<lparr>chk = \<lparr>score = 10, name = ''FAQ Content'', status = ''partial'', maxScore = 15\<rparr>,
            flag = True, pushed_issues = [], pushed_recommendations = []\<rparr>)
      else
        \<lparr>chk = \<lparr>score = 0, name = ''FAQ Content'', status = ''missing'', maxScore = 15\<rparr>,
         flag = False,
         pushed_issues = [''No FAQ content - missing opportunity for LLMs to extract Q&A''],
         pushed_recommendations =
           [''Create FAQ section answering common '' @ industry @ '' questions'']\<rparr>)"

text \<open>Local Business Signals (15 points).\<close>

definition aeo_localScore :: "website_data \<Rightarrow> int" where
  "aeo_localScore d =
     (if (case localBusinessInfo d of None \<Rightarrow> False | Some l \<Rightarrow> truthy (phone l)) then 5 else 0)
   + (if opt (localBusinessInfo d) hasAddress then 5 else 0)
   + (if opt (localBusinessInfo d) hasHours then 5 else 0)"

definition aeo_localCheck :: "website_data \<Rightarrow> string \<Rightarrow> block" where
  "aeo_localCheck d city =
     (let s = aeo_localScore d in
      if s \<ge> 10 then
        \<lparr>chk = \<lparr>score = s, name = ''Local Business Signals'',
                 status = (if s = 15 then ''good'' else ''partial''), maxScore = 15\<rparr>,
         flag = True, pushed_issues = [], pushed_recommendations = []\<rparr>
      else
        \<lparr>chk = \<lparr>score = s, name = ''Local Business Signals'',
                 status = ''missing'', maxScore = 15\<rparr>,
         flag = False,
         pushed_issues = [''Weak local signals - LLMs may not recommend you for local searches''],
         pushed_recommendations =
           [''Prominently display '' @ city @ '' address, phone, and business hours'']\<rparr>)"

text \<open>
  \<^verbatim>\<open>const aeo = data.aeoIndicators || {}\<close>: without indicators every flag reads
  as \<^verbatim>\<open>undefined\<close>.
\<close>

definition aeo :: "website_data \<Rightarrow> (aeo_indicators \<Rightarrow> bool) \<Rightarrow> bool" where
  "aeo d f = opt (aeoIndicators d) f"

text \<open>Clear, Extractable Answers (20 points).\<close>

definition aeo_answersScore :: "website_data \<Rightarrow> int" where
  "aeo_answersScore d =
     (if aeo d hasDefinitiveStatements then 8 else 0)
   + (if aeo d hasServiceDescriptions then 7 else 0)
   + (if aeo d hasProcessDescription then 5 else 0)"

definition aeo_answersCheck :: "website_data \<Rightarrow> block" where
  \<open>aeo_answersCheck d =
     (let s = aeo_answersScore d in
      \<lparr>chk = \<lparr>score = s, name = ''Clear, Extractable Content'',
               status = (if s \<ge> 15 then ''good'' else if s \<ge> 8 then ''partial'' else ''missing''),
               maxScore = 20\<rparr>,
       flag = aeo d hasServiceDescriptions,
       pushed_issues =
         (if s < 20 \<and> s < 8 then [''Content lacks clear, direct statements LLMs can extract'']
          else []),
       pushed_recommendations =
         (if s < 20 \<and> s < 8
          then [''Write clear "We are...", "We specialize in...", "Our process is..." statements'']
          else [])\<rparr>)\<close>

text \<open>Expertise/E-E-A-T Signals (15 points).\<close>

definition aeo_expertiseScore :: "website_data \<Rightarrow> int" where
  "aeo_expertiseScore d =
     (if aeo d hasExpertiseIndicators then 10 else 0)
   + (if aeo d hasStatistics then 5 else 0)"

definition aeo_expertiseCheck :: "website_data \<Rightarrow> block" where
  "aeo_expertiseCheck d =
     (let s = aeo_expertiseScore d in
      \<lparr>chk = \<lparr>score = s, name = ''Expertise & Trust Signals (E-E-A-T)'',
               status = (if s \<ge> 10 then ''good'' else if s \<ge> 5 then ''partial'' else ''missing''),
               maxScore = 15\<rparr>,
       flag = aeo d hasExpertiseIndicators,
       pushed_issues =
         (if s < 15 \<and> s < 10 then [''Missing expertise indicators that build LLM trust'']
          else []),
       pushed_recommendations =
         (if s < 15 \<and> s < 10
          then [''Add credentials, years of experience, certifications, and client statistics'']
          else [])\<rparr>)"

text \<open>Structured Content (15 points).\<close>

definition aeo_structureScore :: "website_data \<Rightarrow> int" where
  "aeo_structureScore d =
     (if aeo d hasStructuredLists then 8 else 0)
   + (if aeo d hasQAFormat then 7 else 0)"

definition aeo_structureCheck :: "website_data \<Rightarrow> block" where
  "aeo_structureCheck d =
     (let s = aeo_structureScore d in
      \<lparr>chk = \<lparr>score = s, name = ''Structured Content Format'',
               status = (if s \<ge> 12 then ''good'' else if s \<ge> 5 then ''partial'' else ''missing''),
               maxScore = 15\<rparr>,
       flag = aeo d hasQAFormat,
       pushed_issues =
         (if s < 15 \<and> s < 8 then [''Content not structured for LLM parsing''] else []),
       pushed_recommendations =
         (if s < 15 \<and> s < 8 then [''Use bullet points, numbered lists, and clear headings'']
          else [])\<rparr>)"

text \<open>
  The six blocks in the order the scorer runs them; each adds its check's score to
  \<^verbatim>\<open>score\<close> and appends the check to \<^verbatim>\<open>detailedChecks\<close>.
\<close>

definition aeo_blocks :: "website_data \<Rightarrow> string \<Rightarrow> string \<Rightarrow> block list" where
  "aeo_blocks d industry city =
     [aeo_schemaCheck d, aeo_faqCheck d industry, aeo_localCheck d city,
      aeo_answersCheck d, aeo_expertiseCheck d, aeo_structureCheck d]"

definition analyzeAEOGEO ::
  "website_data \<Rightarrow> string \<Rightarrow> string \<Rightarrow> string \<Rightarrow> aeo_result" where
  "analyzeAEOGEO d industry city companyName =
     (if truthy (error d) then
        \<lparr>score = 0, issues = [], checks = [], detailedChecks = [],
         recommendations = [], llmContext = None\<rparr>
      else
        (let bs = aeo_blocks d industry city;
             total = sum_list (map (\<lambda>b. score (chk b)) bs)
         in \<lparr>score = min total 100,
             issues = concat (map pushed_issues bs),
             checks = zip [''schemaMarkup'', ''faqContent'', ''localSignals'',
                           ''clearAnswers'', ''expertiseSignals'', ''structuredContent'']
                          (map flag bs),
             detailedChecks = map chk bs,
             recommendations = concat (map pushed_recommendations bs),
             llmContext = Some
               \<lparr>wouldRecommend = (total \<ge> 60),
                prediction =
                  (if total \<ge> 70 then ''HIGH likelihood of being recommended - strong AI signals''
                   else if total \<ge> 50 then ''MEDIUM likelihood - some improvements needed''
                   else ''LOW likelihood - significant improvements needed for AI visibility'')\<rparr>\<rparr>))"

section \<open>The platform\<close>

text \<open>
  Regular expressions and \<^verbatim>\<open>JSON.parse\<close> belong to the JavaScript platform, not to
  the repository; the model takes them as a parameter. A pattern is the source text of
  the regular expression, and every pattern below carries the flag \<^verbatim>\<open>i\<close>.
  \<^item> \<open>matchAll js p s\<close> is \<^verbatim>\<open>s.match(/p/gi) || []\<close>: the matches from left to right;
  \<^item> \<open>replaceAll js p r s\<close> is \<^verbatim>\<open>s.replace(/p/gi, r)\<close>;
  \<^item> \<open>parseJSON js s\<close> is \<^verbatim>\<open>JSON.parse(s)\<close>, \<open>None\<close> when it throws.
\<close>

record platform =
  matchAll :: "string \<Rightarrow> string \<Rightarrow> string list"
  replaceAll :: "string \<Rightarrow> string \<Rightarrow> string \<Rightarrow> string"
  parseJSON :: "string \<Rightarrow> json option"

text \<open>
  A string literal of the logic cannot hold a backslash. The patterns are written with
  \<^verbatim>\<open>%\<close> in its place, which occurs in none of them, and \<open>re\<close> gives the
  source text of the regular expression back.
\<close>

definition re :: "string \<Rightarrow> string" where
  "re p = map (\<lambda>c. if c = CHR ''%'' then CHR 0x5C else c) p"

definition match :: "platform \<Rightarrow> string \<Rightarrow> string \<Rightarrow> string list" where
  "match js p s = matchAll js (re p) s"

definition replace :: "platform \<Rightarrow> string \<Rightarrow> string \<Rightarrow> string \<Rightarrow> string" where
  "replace js p r s = replaceAll js (re p) r s"

text \<open>\<^verbatim>\<open>/p/i.test(s)\<close>: some match exists.\<close>

definition test :: "platform \<Rightarrow> string \<Rightarrow> string \<Rightarrow> bool" where
  "test js p s = (match js p s \<noteq> [])"

section \<open>Feature detectors\<close>

text \<open>
  Each detector is a run of \<^verbatim>\<open>if (/p/i.test(html)) detected.push(label)\<close>; the
  pairs are listed in the order of the source.
\<close>

definition chatbot_registry :: "(string \<times> string) list" where
  \<open>chatbot_registry =
     [(''intercom%.com%/widget|window%.Intercom|intercomSettings'', ''Intercom''),
      (''drift%.com|js%.driftt%.com|window%.drift|drift%s*=%s*window%.drift'', ''Drift''),
      (''js%.hs-scripts%.com|hs-script-loader|hubspot.*conversations|HubSpotConversations'', ''HubSpot Chat''),
      (''static%.zdassets%.com|zopim|zendesk.*chat|zE%s*%(|zESettings'', ''Zendesk Chat''),
      (''cdn%.livechatinc%.com|__lc%s*=|livechatinc%.com%/tracking'', ''LiveChat''),
      (''code%.tidio%.co|tidioChatCode|tidio_chat'', ''Tidio''),
      (''client%.crisp%.chat|window%.%$crisp|CRISP_WEBSITE_ID'', ''Crisp''),
      (''wchat%.freshchat%.com|freshchat%.min%.js|fcWidget'', ''Freshchat''),
      (''embed%.tawk%.to|Tawk_API|tawk%.to'', ''Tawk.to''),
      (''static%.olark%.com|olark%.identify|olark%s*%('', ''Olark''),
      (''call%.chatra%.io|ChatraID|window%.ChatraSetup'', ''Chatra''),
      (''code%.jivosite%.com|jivo_api|jivosite'', ''JivoChat''),
      (''smartsupp%.com%/loader|smartsupp%s*%(|_smartsupp'', ''Smartsupp''),
      (''salesiq%.zoho%.com|zoho.*salesiq|%$zoho.*salesiq'', ''Zoho SalesIQ''),
      (''connect%.facebook%.net.*customerchat|fb-customerchat|MessengerExtensions'', ''Facebook Messenger''),
      (''cdn%.chatbot%.com|chatbot%.com%/widget'', ''Chatbot.com''),
      (''cdn%.voiceflow%.com|voiceflow.*widget'', ''Voiceflow''),
      (''cdn%.botpress%.cloud|botpress.*webchat'', ''Botpress''),
      (''cdn%.landbot%.io|landbot.*widget'', ''Landbot'')]\<close>

definition voice_registry :: "(string \<times> string) list" where
  \<open>voice_registry =
     [(''vapi%.ai|cdn%.vapi%.ai|vapiSDK|vapi-widget'', ''Vapi.ai''),
      (''bland%.ai|api%.bland%.ai|bland-widget'', ''Bland.ai''),
      (''retell%.ai|retellai|retell-widget'', ''Retell AI''),
      (''synthflow%.ai|synthflow-widget'', ''Synthflow''),
      (''vocode%.dev|vocode-widget'', ''Vocode''),
      (''play%.ht|playht.*widget'', ''PlayHT''),
      (''elevenlabs%.io|elevenlabs-widget|elevenlabs-convai'', ''ElevenLabs''),
      (''air%.ai|airai-widget'', ''Air AI'')]\<close>

definition calculator_registry :: "(string \<times> string) list" where
  \<open>calculator_registry =
     [(''calconic%.com|outgrow%.co|calculoid%.com|ucalc%.pro'', ''Third-party Calculator Tool''),
      (''id=["'][^"']*(?:calculator|quote-form|pricing-calculator|cost-estimate)[^"']*["']'', ''Custom Calculator''),
      (''typeform%.com|jotform%.com.*(?:quote|estimate|calculator)'', ''Interactive Quote Form'')]\<close>

definition pushed :: "platform \<Rightarrow> (string \<times> string) list \<Rightarrow> string \<Rightarrow> string list" where
  "pushed js registry s = map snd (filter (\<lambda>(p, label). test js p s) registry)"

definition checkForChatbot :: "platform \<Rightarrow> string \<Rightarrow> vendor_detection" where
  "checkForChatbot js h =
     (let detected = pushed js chatbot_registry h in
      \<lparr>detected = (length detected > 0),
       confidence = (if length detected > 0 then ''high'' else ''none''),
       providers = detected\<rparr>)"

definition checkForVoiceAgent :: "platform \<Rightarrow> string \<Rightarrow> vendor_detection" where
  "checkForVoiceAgent js h =
     (let detected = pushed js voice_registry h in
      \<lparr>detected = (length detected > 0),
       confidence = (if length detected > 0 then ''high'' else ''none''),
       providers = detected\<rparr>)"

definition hasCalcForm :: "platform \<Rightarrow> string \<Rightarrow> bool" where
  \<open>hasCalcForm js h =
     test js ''<form[^>]*(?:calculator|quote|estimate|pricing)[^>]*>[%s%S]*?<input[%s%S]*?<%/form>'' h\<close>

definition hasCalcWidget :: "platform \<Rightarrow> string \<Rightarrow> bool" where
  \<open>hasCalcWidget js h =
     test js ''class=["'][^"']*(?:calculator-widget|quote-calculator|price-calculator|cost-calculator|roi-calculator)[^"']*["']'' h\<close>

definition hasCalcScript :: "platform \<Rightarrow> string \<Rightarrow> bool" where
  \<open>hasCalcScript js h =
     test js ''(?:calculator|calcWidget|quoteCalculator|pricingCalculator)%.(?:js|min%.js)'' h\<close>

definition checkForCalculator :: "platform \<Rightarrow> string \<Rightarrow> tool_detection" where
  "checkForCalculator js h =
     (let found3 = pushed js calculator_registry h;
          detected = (if (hasCalcForm js h \<or> hasCalcWidget js h \<or> hasCalcScript js h)
                         \<and> length found3 = 0
                      then [''Calculator/Quote Tool''] else found3)
      in \<lparr>detected = (length detected > 0),
          confidence = (if length detected > 0 then ''medium'' else ''none''),
          types = detected\<rparr>)"

section \<open>Structured data\<close>

text \<open>
  \<^verbatim>\<open>parsed['@type']\<close>: the member of an object, \<^verbatim>\<open>undefined\<close> on an array, a
  string, a number or a boolean. On \<^verbatim>\<open>null\<close> the read throws; \<open>schemaOf\<close> handles
  that case before.
\<close>

fun atType :: "json \<Rightarrow> json option" where
  "atType (JObj members) = map_of members ''@type''"
| "atType v = None"

fun truthy_json :: "json option \<Rightarrow> bool" where
  "truthy_json None = False"
| "truthy_json (Some JNull) = False"
| "truthy_json (Some (JBool b)) = b"
| "truthy_json (Some (JNum x)) = (x \<noteq> 0)"
| "truthy_json (Some (JStr s)) = (s \<noteq> [])"
| "truthy_json (Some (JArr xs)) = True"
| "truthy_json (Some (JObj ms)) = True"

text \<open>\<^verbatim>\<open>parsed['@type'] || 'Unknown'\<close>.\<close>

definition typeOrUnknown :: "json \<Rightarrow> json" where
  "typeOrUnknown parsed =
     (case atType parsed of
        Some t \<Rightarrow> if truthy_json (Some t) then t else JStr ''Unknown''
      | None \<Rightarrow> JStr ''Unknown'')"

text \<open>
  The body of the \<^verbatim>\<open>try\<close> for one matched block: \<open>None\<close> when it throws, which the
  \<^verbatim>\<open>catch\<close> swallows (a syntax error of \<^verbatim>\<open>JSON.parse\<close>, or the type error of
  reading a member of \<^verbatim>\<open>null\<close>).
\<close>

definition scriptTagPattern :: string where
  \<open>scriptTagPattern = ''<script[^>]*>|<%/script>''\<close>

definition content :: "platform \<Rightarrow> string \<Rightarrow> string" where
  "content js m = replace js scriptTagPattern [] m"

definition schemaOf :: "platform \<Rightarrow> string \<Rightarrow> schema_entry option" where
  "schemaOf js m =
     (case parseJSON js (content js m) of
        None \<Rightarrow> None
      | Some JNull \<Rightarrow> None
      | Some parsed \<Rightarrow>
          Some \<lparr>type = ''JSON-LD'', schemaType = typeOrUnknown parsed, data = parsed\<rparr>)"

definition jsonLdPattern :: string where
  \<open>jsonLdPattern = ''<script[^>]*type=["']application%/ld%+json["'][^>]*>([%s%S]*?)<%/script>''\<close>

definition jsonLdMatches :: "platform \<Rightarrow> string \<Rightarrow> string list" where
  "jsonLdMatches js h = match js jsonLdPattern h"

definition extractSchemaMarkup :: "platform \<Rightarrow> string \<Rightarrow> schema_markup" where
  "extractSchemaMarkup js h =
     (let schemas = List.map_filter (schemaOf js) (jsonLdMatches js h)
      in \<lparr>found = (length schemas > 0),
          count = length schemas,
          schemas = schemas,
          hasLocalBusiness = list_ex (\<lambda>s. schemaType s = JStr ''LocalBusiness'' \<or>
                                          schemaType s = JStr ''Organization'' \<or>
                                          schemaType s = JStr ''ProfessionalService'') schemas,
          hasFAQSchema = list_ex (\<lambda>s. schemaType s = JStr ''FAQPage'') schemas,
          hasReviewSchema = list_ex (\<lambda>s. schemaType s = JStr ''Review'' \<or>
                                         schemaType s = JStr ''AggregateRating'') schemas,
          hasServiceSchema = list_ex (\<lambda>s. schemaType s = JStr ''Service'' \<or>
                                          schemaType s = JStr ''Product'') schemas\<rparr>)"

text \<open>
  Some matched block parses and declares the top-level type \<open>t\<close>: the notion the
  flags of \<^verbatim>\<open>extractSchemaMarkup\<close> are compared with below.
\<close>

definition declaresType :: "platform \<Rightarrow> string \<Rightarrow> string \<Rightarrow> bool" where
  "declaresType js h t =
     list_ex (\<lambda>m. case parseJSON js (content js m) of
                     None \<Rightarrow> False
                   | Some parsed \<Rightarrow> atType parsed = Some (JStr t))
             (jsonLdMatches js h)"

section \<open>The AI readiness scorer\<close>

record ai_features =
  chatbot :: vendor_detection
  voiceAgent :: vendor_detection
  calculator :: tool_detection

record ai_result = category_score +
  features :: "ai_features option"
  opportunities :: "string list option"

definition analyzeAIReadiness :: "website_data \<Rightarrow> ai_result" where
  "analyzeAIReadiness d =
     (if truthy (error d) then
        \<lparr>score = 0, issues = [''Could not analyze website''], checks = [],
         features = None, opportunities = None\<rparr>
      else
        (let features = \<lparr>chatbot = hasChatbot d, voiceAgent = hasVoiceAgent d,
                         calculator = hasCalculator d\<rparr>;
             total =
               (if detected (chatbot features) then 30 else 0)
             + (if detected (voiceAgent features) then 25 else 0)
             + (if detected (calculator features) then 25 else 0)
             + (if opt (schemaMarkup d) found
                then 10 + (if opt (schemaMarkup d) hasLocalBusiness then 5 else 0)
                        + (if opt (schemaMarkup d) hasFAQSchema then 5 else 0)
                else 0)
         in \<lparr>score = min total 100,
             issues =
               (if detected (chatbot features) then []
                else [''No AI chatbot detected - missing 24/7 lead qualification''])
             @ (if detected (voiceAgent features) then []
                else [''No AI voice agent detected - after-hours calls go unanswered''])
             @ (if detected (calculator features) then []
                else [''No instant quote/calculator tool - visitors want immediate answers''])
             @ (if opt (schemaMarkup d) found then []
                else [''No schema markup - AI assistants struggle to understand your business'']),
             checks = [],
             features = Some features,
             opportunities = Some
               ((if detected (chatbot features) then []
                 else [''Add an AI chatbot to capture and qualify leads around the clock''])
              @ (if detected (voiceAgent features) then []
                 else [''Implement AI voice agent to never miss a call''])
              @ (if detected (calculator features) then []
                 else [''Add an AI-powered quote calculator for instant estimates'']))\<rparr>))"

section \<open>The SEO scorer\<close>

text \<open>
  What one block of a scorer without detailed checks does: the points it adds to
  \<^verbatim>\<open>score\<close>, the flag it stores in \<^verbatim>\<open>checks\<close> and the issues it pushes.
\<close>

record step =
  points :: int
  passed :: bool
  raised :: "string list"

definition meta :: "website_data \<Rightarrow> (meta_tags \<Rightarrow> string option) \<Rightarrow> string option" where
  "meta d f = (case metaTags d of None \<Rightarrow> None | Some t \<Rightarrow> f t)"

text \<open>\<^verbatim>\<open>data.headings?.h1?.length\<close>, \<open>None\<close> for \<^verbatim>\<open>undefined\<close>.\<close>

definition h1Length :: "website_data \<Rightarrow> nat option" where
  "h1Length d = (case headings d of None \<Rightarrow> None | Some h \<Rightarrow> Some (length (h1 h)))"

definition seo_title :: "website_data \<Rightarrow> step" where
  "seo_title d =
     (case meta d title of
        Some t \<Rightarrow>
          if t \<noteq> [] then
            \<lparr>points = 10 + (if length t \<ge> 30 \<and> length t \<le> 60 then 5 else 0),
             passed = True, raised = []\<rparr>
          else \<lparr>points = 0, passed = False, raised = [''Missing title tag'']\<rparr>
      | None \<Rightarrow> \<lparr>points = 0, passed = False, raised = [''Missing title tag'']\<rparr>)"

definition seo_description :: "website_data \<Rightarrow> step" where
  "seo_description d =
     (case meta d description of
        Some t \<Rightarrow>
          if t \<noteq> [] then
            \<lparr>points = 10 + (if length t \<ge> 120 \<and> length t \<le> 160 then 5 else 0),
             passed = True, raised = []\<rparr>
          else \<lparr>points = 0, passed = False, raised = [''Missing meta description'']\<rparr>
      | None \<Rightarrow> \<lparr>points = 0, passed = False, raised = [''Missing meta description'']\<rparr>)"

definition seo_h1 :: "website_data \<Rightarrow> step" where
  "seo_h1 d =
     (if h1Length d = Some 1 then \<lparr>points = 15, passed = True, raised = []\<rparr>
      else if (case h1Length d of None \<Rightarrow> False | Some n \<Rightarrow> n > 1) then
        \<lparr>points = 5, passed = False,
         raised = [''Multiple H1 tags found (should have exactly one)'']\<rparr>
      else \<lparr>points = 0, passed = False, raised = [''Missing H1 tag'']\<rparr>)"

definition seo_schema :: "website_data \<Rightarrow> step" where
  "seo_schema d =
     (if opt (schemaMarkup d) found then \<lparr>points = 15, passed = True, raised = []\<rparr>
      else \<lparr>points = 0, passed = False, raised = [''No schema markup detected'']\<rparr>)"

definition seo_https :: "website_data \<Rightarrow> step" where
  "seo_https d =
     (if hasHttps d then \<lparr>points = 10, passed = True, raised = []\<rparr>
      else \<lparr>points = 0, passed = False, raised = [''Site not using HTTPS'']\<rparr>)"

definition seo_canonical :: "website_data \<Rightarrow> step" where
  "seo_canonical d =
     (if truthy (meta d canonical) then \<lparr>points = 10, passed = True, raised = []\<rparr>
      else \<lparr>points = 0, passed = False, raised = [''Missing canonical URL'']\<rparr>)"

definition seo_mobile :: "pagespeed option \<Rightarrow> step" where
  "seo_mobile pageSpeedData =
     (let mobileScore = orZero (performanceScore pageSpeedData) in
      if mobileScore \<ge> 0.5 then \<lparr>points = 10, passed = True, raised = []\<rparr>
      else \<lparr>points = 0, passed = False, raised = [''Poor mobile performance'']\<rparr>)"

definition seo_openGraph :: "website_data \<Rightarrow> step" where
  "seo_openGraph d =
     (if truthy (meta d ogTitle) \<and> truthy (meta d ogDescription)
      then \<lparr>points = 10, passed = True, raised = []\<rparr>
      else \<lparr>points = 0, passed = False, raised = [''Missing Open Graph tags'']\<rparr>)"

definition seo_steps :: "website_data \<Rightarrow> pagespeed option \<Rightarrow> step list" where
  "seo_steps d pageSpeedData =
     [seo_title d, seo_description d, seo_h1 d, seo_schema d, seo_https d,
      seo_canonical d, seo_mobile pageSpeedData, seo_openGraph d]"

record seo_result = category_score +
  seo_metaTags :: "meta_tags option"

definition analyzeSEO :: "website_data \<Rightarrow> pagespeed option \<Rightarrow> seo_result" where
  "analyzeSEO d pageSpeedData =
     (if truthy (error d) then
        \<lparr>score = 0, issues = [], checks = [], seo_metaTags = None\<rparr>
      else
        (let steps = seo_steps d pageSpeedData in
         \<lparr>score = min (sum_list (map points steps)) 100,
          issues = concat (map raised steps),
          checks = zip [''title'', ''description'', ''h1'', ''schema'', ''https'',
                        ''canonical'', ''mobile'', ''openGraph'']
                       (map passed steps),
          seo_metaTags = metaTags d\<rparr>))"

section \<open>The security scorer\<close>

text \<open>\<^verbatim>\<open>headers[k]?.includes(w)\<close> read as a condition.\<close>

definition includes_opt :: "string option \<Rightarrow> string \<Rightarrow> bool" where
  "includes_opt v w = (case v of None \<Rightarrow> False | Some s \<Rightarrow> sublist w s)"

record security_result = category_score +
  sec_hasHttps :: bool

definition analyzeSecurityHeaders :: "string \<Rightarrow> website_data \<Rightarrow> security_result" where
  "analyzeSecurityHeaders url d =
     (let https = prefix ''https://'' url in
      \<lparr>score = min
         ((if https then 40 else 0)
          + (case headers d of
               Some h \<Rightarrow>
                 (if truthy (h ''strict-transport-security'') then 15 else 0)
               + (if truthy (h ''x-content-type-options'') then 15 else 0)
               + (if truthy (h ''x-frame-options'')
                     \<or> includes_opt (h ''content-security-policy'') ''frame-ancestors''
                  then 15 else 0)
               + (if truthy (h ''content-security-policy'') then 15 else 0)
             | None \<Rightarrow> 30))
         100,
       issues =
         (if https then [] else [''Not using HTTPS - security risk''])
         @ (case headers d of
              Some h \<Rightarrow> if truthy (h ''strict-transport-security'') then []
                        else [''Missing HSTS header'']
            | None \<Rightarrow> []),
       checks = [],
       sec_hasHttps = https\<rparr>)"

section \<open>The accessibility scorer\<close>

text \<open>The decimal digits of a number, for the one issue that interpolates a number.\<close>

function decimal :: "nat \<Rightarrow> string" where
  "decimal n = (if n < 10 then [''0123456789'' ! n]
                else decimal (n div 10) @ [''0123456789'' ! (n mod 10)])"
  by pat_completeness auto
termination
  by (relation "measure id") auto

text \<open>
  The share of \<^verbatim>\<open><img>\<close> tags that carry a non-empty \<^verbatim>\<open>alt\<close>; 1 without
  images. The quotient and its comparisons with 0.9 and 0.5 are the same in double
  precision for every page with fewer than \<open>10\<^sup>1\<^sup>5\<close> images. The number put
  into the text of the issue is the rounding of a double product and may differ by one
  from the digits below, which round the exact product (27 of 40 images with
  \<^verbatim>\<open>alt\<close> give 32 in double precision and 33 here); the points and the flag are
  the same.
\<close>

definition imgPattern :: string where
  \<open>imgPattern = ''<img[^>]*>''\<close>

definition altPattern :: string where
  \<open>altPattern = ''alt%s*=%s*["'][^"']+["']''\<close>

definition imgTags :: "platform \<Rightarrow> string \<Rightarrow> string list" where
  "imgTags js h = match js imgPattern h"

definition imgsWithAlt :: "platform \<Rightarrow> string \<Rightarrow> string list" where
  "imgsWithAlt js h = filter (\<lambda>img. test js altPattern img) (imgTags js h)"

definition altRatio :: "platform \<Rightarrow> string \<Rightarrow> real" where
  "altRatio js h =
     (if length (imgTags js h) > 0
      then real (length (imgsWithAlt js h)) / real (length (imgTags js h))
      else 1)"

definition a11y_altText :: "platform \<Rightarrow> string \<Rightarrow> step" where
  "a11y_altText js h =
     (if altRatio js h \<ge> 0.9 then \<lparr>points = 15, passed = True, raised = []\<rparr>
      else if altRatio js h \<ge> 0.5 then
        \<lparr>points = 8, passed = False,
         raised = [decimal (nat (round_js ((1 - altRatio js h) * 100)))
                   @ ''% of images missing alt text - screen readers cannot describe them'']\<rparr>
      else
        \<lparr>points = 0, passed = False,
         raised = [''Most images missing alt text - site not accessible to visually impaired users'']\<rparr>)"

definition a11y_headingHierarchy :: "platform \<Rightarrow> string \<Rightarrow> step" where
  \<open>a11y_headingHierarchy js h =
     (let hasH1 = test js ''<h1[^>]*>'' h;
          h1Count = length (match js ''<h1[^>]*>'' h);
          hasProperHierarchy = (hasH1 \<and> h1Count = 1)
      in if hasProperHierarchy then \<lparr>points = 10, passed = True, raised = []\<rparr>
         else if hasH1 then
           \<lparr>points = 5, passed = False,
            raised = (if h1Count > 1
                      then [''Multiple H1 headings found - confuses screen readers''] else [])\<rparr>
         else
           \<lparr>points = 0, passed = False,
            raised = [''No H1 heading found - page structure unclear for assistive technology'']\<rparr>)\<close>

definition a11y_formLabels :: "platform \<Rightarrow> string \<Rightarrow> step" where
  \<open>a11y_formLabels js h =
     (let formInputs = match js ''<input[^>]*type%s*=%s*["'](text|email|tel|password|search|number)["'][^>]*>'' h;
          hasLabels = test js ''<label[^>]*>'' h;
          hasAriaLabels = test js ''aria-label%s*='' h
      in if length formInputs = 0 \<or> hasLabels \<or> hasAriaLabels
         then \<lparr>points = 10, passed = True, raised = []\<rparr>
         else
           \<lparr>points = 0, passed = False,
            raised = [''Form inputs may lack proper labels - difficult for screen reader users'']\<rparr>)\<close>

definition a11y_skipLinks :: "platform \<Rightarrow> string \<Rightarrow> step" where
  \<open>a11y_skipLinks js h =
     (let hasSkipLink = (test js ''skip[- ]?(to[- ]?)?(main|content|nav)'' h \<or>
                         test js ''#(main|content|maincontent)'' h)
      in if hasSkipLink then \<lparr>points = 5, passed = True, raised = []\<rparr>
         else
           \<lparr>points = 0, passed = False,
            raised = [''No skip navigation link - keyboard users must tab through entire header'']\<rparr>)\<close>

definition a11y_ariaLandmarks :: "platform \<Rightarrow> string \<Rightarrow> step" where
  \<open>a11y_ariaLandmarks js h =
     (let hasLandmarks = (test js ''role%s*=%s*["'](main|navigation|banner|contentinfo|search)["']'' h \<or>
                          test js ''<(main|nav|header|footer|aside)[^>]*>'' h)
      in if hasLandmarks then \<lparr>points = 5, passed = True, raised = []\<rparr>
         else
           \<lparr>points = 0, passed = False,
            raised = [''Missing ARIA landmarks - assistive technology cannot navigate page sections'']\<rparr>)\<close>

definition a11y_colorContrast :: "platform \<Rightarrow> string \<Rightarrow> step" where
  \<open>a11y_colorContrast js h =
     (let hasLightText = (test js ''color%s*:%s*#[ef]{3,6}'' h \<or>
                          test js ''color%s*:%s*rgb%s*%(%s*(2[3-5]%d|25[0-5])%s*,%s*(2[3-5]%d|25[0-5])%s*,%s*(2[3-5]%d|25[0-5])%s*%)'' h)
      in if \<not> hasLightText then \<lparr>points = 5, passed = True, raised = []\<rparr>
         else
           \<lparr>points = 0, passed = False,
            raised = [''Potential color contrast issues - may be difficult to read for low vision users'']\<rparr>)\<close>

definition a11y_focusIndicators :: "platform \<Rightarrow> string \<Rightarrow> step" where
  \<open>a11y_focusIndicators js h =
     (let hasFocusStyles = (test js '':focus'' h \<or> test js ''outline'' h)
      in if hasFocusStyles then \<lparr>points = 5, passed = True, raised = []\<rparr>
         else
           \<lparr>points = 0, passed = False,
            raised = [''No visible focus indicators found - keyboard navigation unclear'']\<rparr>)\<close>

definition a11y_langAttribute :: "platform \<Rightarrow> string \<Rightarrow> step" where
  \<open>a11y_langAttribute js h =
     (let hasLangAttr = test js ''<html[^>]*lang%s*='' h
      in if hasLangAttr then \<lparr>points = 5, passed = True, raised = []\<rparr>
         else
           \<lparr>points = 0, passed = False,
            raised = [''Missing language attribute - screen readers may use wrong pronunciation'']\<rparr>)\<close>

definition a11y_steps :: "platform \<Rightarrow> string \<Rightarrow> step list" where
  "a11y_steps js h =
     [a11y_altText js h, a11y_headingHierarchy js h, a11y_formLabels js h,
      a11y_skipLinks js h, a11y_ariaLandmarks js h, a11y_colorContrast js h,
      a11y_focusIndicators js h, a11y_langAttribute js h]"

text \<open>
  The part taken from the performance lab: nothing when the accessibility score is
  \<^verbatim>\<open>undefined\<close>, else \<^verbatim>\<open>Math.round(score * 40)\<close> points and
  \<^verbatim>\<open>Math.round(score * 100)\<close> stored as \<^verbatim>\<open>checks.lighthouseScore\<close>. The
  roundings are taken over the exact products. For a score in hundredths, as the lab
  reports it, that is the rounding of the double product; for another score the double
  product may round to the neighbouring integer (0.145 stores 14 where the exact product
  gives 15). The bounds of the points are the same in both.
\<close>

definition lighthousePoints :: "pagespeed option \<Rightarrow> int" where
  "lighthousePoints pageSpeedData =
     (case accessibilityScore pageSpeedData of
        Undefined \<Rightarrow> 0
      | v \<Rightarrow> round_js (toNumber v * 40))"

definition lighthousePercent :: "pagespeed option \<Rightarrow> int option" where
  "lighthousePercent pageSpeedData =
     (case accessibilityScore pageSpeedData of
        Undefined \<Rightarrow> None
      | v \<Rightarrow> Some (round_js (toNumber v * 100)))"

text \<open>
  \<^verbatim>\<open>checks\<close> of this scorer holds the flags and the number
  \<^verbatim>\<open>lighthouseScore\<close>; the number is the field \<open>checks_lighthouseScore\<close>. The
  result's own \<^verbatim>\<open>lighthouseScore\<close> is \<^verbatim>\<open>checks.lighthouseScore || null\<close>.
\<close>

record accessibility_result = category_score +
  checks_lighthouseScore :: "int option"
  lighthouseScore :: "int option"

definition analyzeAccessibility ::
  "platform \<Rightarrow> website_data \<Rightarrow> pagespeed option \<Rightarrow> accessibility_result" where
  "analyzeAccessibility js d pageSpeedData =
     (let score0 = lighthousePoints pageSpeedData in
      if truthy (error d) then
        \<lparr>score = max score0 0, issues = [''Could not analyze website HTML''], checks = [],
         checks_lighthouseScore = lighthousePercent pageSpeedData, lighthouseScore = None\<rparr>
      else
        (let h = htmlOf d;
             steps = a11y_steps js h
         in \<lparr>score = min (score0 + sum_list (map points steps)) 100,
             issues = concat (map raised steps),
             checks = zip [''altText'', ''headingHierarchy'', ''formLabels'', ''skipLinks'',
                           ''ariaLandmarks'', ''colorContrast'', ''focusIndicators'',
                           ''langAttribute'']
                          (map passed steps),
             checks_lighthouseScore = lighthousePercent pageSpeedData,
             lighthouseScore =
               (case lighthousePercent pageSpeedData of
                  None \<Rightarrow> None
                | Some n \<Rightarrow> if n = 0 then None else Some n)\<rparr>))"

section \<open>The detailed revision of the SEO and security scorers\<close>

text \<open>
  The later revision of the same file rewrites \<^verbatim>\<open>analyzeSEO\<close> and
  \<^verbatim>\<open>analyzeSecurityHeaders\<close> with a detailed check per block; the other scorers
  are unchanged in it. The two functions carry the suffix \<open>_detailed\<close> here.
\<close>

definition seoD_title :: "website_data \<Rightarrow> block" where
  "seoD_title d =
     (if truthy (meta d title) then
        \<lparr>chk = (if length (the (meta d title)) \<ge> 30 \<and> length (the (meta d title)) \<le> 60
                then \<lparr>score = 15, name = ''Meta Title'', status = ''good'', maxScore = 15\<rparr>
                else \<lparr>score = 10, name = ''Meta Title'', status = ''partial'', maxScore = 15\<rparr>),
         flag = True, pushed_issues = [], pushed_recommendations = []\<rparr>
      else
        \<lparr>chk = \<lparr>score = 0, name = ''Meta Title'', status = ''missing'', maxScore = 15\<rparr>,
         flag = False, pushed_issues = [''Missing title tag''], pushed_recommendations = []\<rparr>)"

definition seoD_description :: "website_data \<Rightarrow> block" where
  "seoD_description d =
     (if truthy (meta d description) then
        \<lparr>chk = (if length (the (meta d description)) \<ge> 120
                   \<and> length (the (meta d description)) \<le> 160
                then \<lparr>score = 15, name = ''Meta Description'', status = ''good'', maxScore = 15\<rparr>
                else \<lparr>score = 10, name = ''Meta Description'', status = ''partial'',
                      maxScore = 15\<rparr>),
         flag = True, pushed_issues = [], pushed_recommendations = []\<rparr>
      else
        \<lparr>chk = \<lparr>score = 0, name = ''Meta Description'', status = ''missing'', maxScore = 15\<rparr>,
         flag = False, pushed_issues = [''Missing meta description''],
         pushed_recommendations = []\<rparr>)"

definition seoD_h1 :: "website_data \<Rightarrow> block" where
  "seoD_h1 d =
     (if h1Length d = Some 1 then
        \<lparr>chk = \<lparr>score = 15, name = ''H1 Heading'', status = ''good'', maxScore = 15\<rparr>,
         flag = True, pushed_issues = [], pushed_recommendations = []\<rparr>
      else if (case h1Length d of None \<Rightarrow> False | Some n \<Rightarrow> n > 1) then
        \<lparr>chk = \<lparr>score = 5, name = ''H1 Heading'', status = ''partial'', maxScore = 15\<rparr>,
         flag = False, pushed_issues = [''Multiple H1 tags found''], pushed_recommendations = []\<rparr>
      else
        \<lparr>chk = \<lparr>score = 0, name = ''H1 Heading'', status = ''missing'', maxScore = 15\<rparr>,
         flag = False, pushed_issues = [''Missing H1 tag''], pushed_recommendations = []\<rparr>)"

definition seoD_schema :: "website_data \<Rightarrow> block" where
  "seoD_schema d =
     (if opt (schemaMarkup d) found then
        \<lparr>chk = \<lparr>score = 10 + (if opt (schemaMarkup d) hasLocalBusiness then 3 else 0)
                           + (if opt (schemaMarkup d) hasFAQSchema then 2 else 0),
                 name = ''Schema Markup'',
                 status = (if opt (schemaMarkup d) hasFAQSchema then ''good'' else ''partial''),
                 maxScore = 15\<rparr>,
         flag = True, pushed_issues = [], pushed_recommendations = []\<rparr>
      else
        \<lparr>chk = \<lparr>score = 0, name = ''Schema Markup'', status = ''missing'', maxScore = 15\<rparr>,
         flag = False, pushed_issues = [''No schema markup detected''],
         pushed_recommendations = []\<rparr>)"

definition seoD_canonical :: "website_data \<Rightarrow> block" where
  "seoD_canonical d =
     (if truthy (meta d canonical) then
        \<lparr>chk = \<lparr>score = 10, name = ''Canonical URL'', status = ''good'', maxScore = 10\<rparr>,
         flag = True, pushed_issues = [], pushed_recommendations = []\<rparr>
      else
        \<lparr>chk = \<lparr>score = 0, name = ''Canonical URL'', status = ''missing'', maxScore = 10\<rparr>,
         flag = False, pushed_issues = [''Missing canonical URL''],
         pushed_recommendations = []\<rparr>)"

definition seoD_openGraph :: "platform \<Rightarrow> website_data \<Rightarrow> block" where
  \<open>seoD_openGraph js d =
     (let hasImage = test js ''<meta[^>]*property=["']og:image["']'' (htmlOf d)
      in if truthy (meta d ogTitle) \<and> truthy (meta d ogDescription) then
           \<lparr>chk = (if hasImage
                   then \<lparr>score = 10, name = ''Open Graph Tags'', status = ''good'', maxScore = 10\<rparr>
                   else \<lparr>score = 7, name = ''Open Graph Tags'', status = ''partial'',
                         maxScore = 10\<rparr>),
            flag = True, pushed_issues = [], pushed_recommendations = []\<rparr>
         else
           \<lparr>chk = \<lparr>score = 0, name = ''Open Graph Tags'', status = ''missing'', maxScore = 10\<rparr>,
            flag = False, pushed_issues = [''Missing Open Graph tags''],
            pushed_recommendations = []\<rparr>)\<close>

text \<open>The flag of this block is \<^verbatim>\<open>isIndexable\<close>.\<close>

definition seoD_robots :: "website_data \<Rightarrow> block" where
  "seoD_robots d =
     (if includes_opt (meta d robots) ''noindex'' then
        \<lparr>chk = \<lparr>score = 0, name = ''Robots Meta'', status = ''warning'', maxScore = 5\<rparr>,
         flag = False, pushed_issues = [''Page set to noindex''], pushed_recommendations = []\<rparr>
      else
        \<lparr>chk = \<lparr>score = 5, name = ''Robots Meta'', status = ''good'', maxScore = 5\<rparr>,
         flag = True, pushed_issues = [], pushed_recommendations = []\<rparr>)"

definition seoD_mobile :: "platform \<Rightarrow> website_data \<Rightarrow> pagespeed option \<Rightarrow> block" where
  \<open>seoD_mobile js d pageSpeedData =
     (let hasViewport = test js ''<meta[^>]*name=["']viewport["']'' (htmlOf d);
          mobilePerfScore = orZero (performanceScore pageSpeedData)
      in if hasViewport \<and> mobilePerfScore \<ge> 0.5 then
           \<lparr>chk = \<lparr>score = 10, name = ''Mobile Friendly'', status = ''good'', maxScore = 10\<rparr>,
            flag = True, pushed_issues = [], pushed_recommendations = []\<rparr>
         else if hasViewport then
           \<lparr>chk = \<lparr>score = 5, name = ''Mobile Friendly'', status = ''partial'', maxScore = 10\<rparr>,
            flag = False, pushed_issues = [], pushed_recommendations = []\<rparr>
         else
           \<lparr>chk = \<lparr>score = 0, name = ''Mobile Friendly'', status = ''missing'', maxScore = 10\<rparr>,
            flag = False, pushed_issues = [''Not mobile-friendly''],
            pushed_recommendations = []\<rparr>)\<close>

definition seoD_https :: "website_data \<Rightarrow> block" where
  "seoD_https d =
     (if hasHttps d then
        \<lparr>chk = \<lparr>score = 10, name = ''HTTPS Security'', status = ''good'', maxScore = 10\<rparr>,
         flag = True, pushed_issues = [], pushed_recommendations = []\<rparr>
      else
        \<lparr>chk = \<lparr>score = 0, name = ''HTTPS Security'', status = ''missing'', maxScore = 10\<rparr>,
         flag = False, pushed_issues = [''Site not using HTTPS''],
         pushed_recommendations = []\<rparr>)"

text \<open>This block stores no flag in \<^verbatim>\<open>checks\<close>; \<open>flag\<close> is not read.\<close>

definition seoD_coreWebVitals :: "pagespeed option \<Rightarrow> block" where
  "seoD_coreWebVitals pageSpeedData =
     (let perfScore = orZero (performanceScore pageSpeedData)
      in if perfScore \<ge> 0.9 then
           \<lparr>chk = \<lparr>score = 10, name = ''Core Web Vitals'', status = ''good'', maxScore = 10\<rparr>,
            flag = False, pushed_issues = [], pushed_recommendations = []\<rparr>
         else if perfScore \<ge> 0.5 then
           \<lparr>chk = \<lparr>score = 5, name = ''Core Web Vitals'', status = ''partial'', maxScore = 10\<rparr>,
            flag = False, pushed_issues = [], pushed_recommendations = []\<rparr>
         else
           \<lparr>chk = \<lparr>score = 0, name = ''Core Web Vitals'', status = ''missing'', maxScore = 10\<rparr>,
            flag = False, pushed_issues = [''Poor Core Web Vitals''],
            pushed_recommendations = []\<rparr>)"

definition seoD_blocks :: "platform \<Rightarrow> website_data \<Rightarrow> pagespeed option \<Rightarrow> block list" where
  "seoD_blocks js d pageSpeedData =
     [seoD_title d, seoD_description d, seoD_h1 d, seoD_schema d, seoD_canonical d,
      seoD_openGraph js d, seoD_robots d, seoD_mobile js d pageSpeedData, seoD_https d,
      seoD_coreWebVitals pageSpeedData]"

record seo_detailed_result = detailed_score +
  seoD_metaTags :: "meta_tags option"
  passedChecks :: nat
  failedChecks :: nat

definition analyzeSEO_detailed ::
  "platform \<Rightarrow> website_data \<Rightarrow> pagespeed option \<Rightarrow> seo_detailed_result" where
  "analyzeSEO_detailed js d pageSpeedData =
     (if truthy (error d) then
        \<lparr>score = 0, issues = [], checks = [], detailedChecks = [],
         seoD_metaTags = None, passedChecks = 0, failedChecks = 0\<rparr>
      else
        (let bs = seoD_blocks js d pageSpeedData;
             total = sum_list (map (\<lambda>b. score (chk b)) bs)
         in \<lparr>score = min total 100,
             issues = concat (map pushed_issues bs),
             checks = zip [''title'', ''description'', ''h1'', ''schema'', ''canonical'',
                           ''openGraph'', ''robots'', ''mobile'', ''https'']
                          (map flag bs),
             detailedChecks = map chk bs,
             seoD_metaTags = metaTags d,
             passedChecks = length (filter (\<lambda>c. status c = ''good'') (map chk bs)),
             failedChecks = length (filter (\<lambda>c. status c = ''missing'' \<or> status c = ''partial'')
                                          (map chk bs))\<rparr>))"

definition sec_https :: "string \<Rightarrow> block" where
  "sec_https url =
     (if prefix ''https://'' url then
        \<lparr>chk = \<lparr>score = 25, name = ''HTTPS / SSL Certificate'', status = ''good'', maxScore = 25\<rparr>,
         flag = True, pushed_issues = [], pushed_recommendations = []\<rparr>
      else
        \<lparr>chk = \<lparr>score = 0, name = ''HTTPS / SSL Certificate'', status = ''missing'',
                 maxScore = 25\<rparr>,
         flag = False, pushed_issues = [''Not using HTTPS - customer data is at risk''],
         pushed_recommendations = []\<rparr>)"

definition sec_hsts :: "(string \<rightharpoonup> string) \<Rightarrow> block" where
  "sec_hsts h =
     (if truthy (h ''strict-transport-security'') then
        \<lparr>chk = \<lparr>score = 15, name = ''HSTS (HTTP Strict Transport Security)'', status = ''good'',
                 maxScore = 15\<rparr>,
         flag = True, pushed_issues = [], pushed_recommendations = []\<rparr>
      else
        \<lparr>chk = \<lparr>score = 0, name = ''HSTS (HTTP Strict Transport Security)'',
                 status = ''missing'', maxScore = 15\<rparr>,
         flag = False,
         pushed_issues = [''Missing HSTS header - browsers may connect via insecure HTTP''],
         pushed_recommendations = []\<rparr>)"

definition sec_csp :: "(string \<rightharpoonup> string) \<Rightarrow> block" where
  "sec_csp h =
     (if truthy (h ''content-security-policy'') then
        \<lparr>chk = (if includes_opt (h ''content-security-policy'') ''unsafe-inline''
                   \<or> includes_opt (h ''content-security-policy'') ''unsafe-eval''
                then \<lparr>score = 10, name = ''Content Security Policy (CSP)'', status = ''partial'',
                      maxScore = 15\<rparr>
                else \<lparr>score = 15, name = ''Content Security Policy (CSP)'', status = ''good'',
                      maxScore = 15\<rparr>),
         flag = True, pushed_issues = [], pushed_recommendations = []\<rparr>
      else
        \<lparr>chk = \<lparr>score = 0, name = ''Content Security Policy (CSP)'', status = ''missing'',
                 maxScore = 15\<rparr>,
         flag = False,
         pushed_issues = [''No Content Security Policy - site vulnerable to XSS attacks''],
         pushed_recommendations = []\<rparr>)"

definition sec_frame :: "(string \<rightharpoonup> string) \<Rightarrow> block" where
  "sec_frame h =
     (if truthy (h ''x-frame-options'')
         \<or> includes_opt (h ''content-security-policy'') ''frame-ancestors'' then
        \<lparr>chk = \<lparr>score = 10, name = ''Clickjacking Protection'', status = ''good'', maxScore = 10\<rparr>,
         flag = True, pushed_issues = [], pushed_recommendations = []\<rparr>
      else
        \<lparr>chk = \<lparr>score = 0, name = ''Clickjacking Protection'', status = ''missing'',
                 maxScore = 10\<rparr>,
         flag = False,
         pushed_issues =
           [''No clickjacking protection - site can be embedded in malicious iframes''],
         pushed_recommendations = []\<rparr>)"

definition sec_mime :: "(string \<rightharpoonup> string) \<Rightarrow> block" where
  "sec_mime h =
     (if h ''x-content-type-options'' = Some ''nosniff'' then
        \<lparr>chk = \<lparr>score = 10, name = ''MIME Type Sniffing Protection'', status = ''good'',
                 maxScore = 10\<rparr>,
         flag = True, pushed_issues = [], pushed_recommendations = []\<rparr>
      else if truthy (h ''x-content-type-options'') then
        \<lparr>chk = \<lparr>score = 5, name = ''MIME Type Sniffing Protection'', status = ''partial'',
                 maxScore = 10\<rparr>,
         flag = False, pushed_issues = [], pushed_recommendations = []\<rparr>
      else
        \<lparr>chk = \<lparr>score = 0, name = ''MIME Type Sniffing Protection'', status = ''missing'',
                 maxScore = 10\<rparr>,
         flag = False, pushed_issues = [], pushed_recommendations = []\<rparr>)"

definition sec_referrer :: "(string \<rightharpoonup> string) \<Rightarrow> block" where
  "sec_referrer h =
     (if truthy (h ''referrer-policy'') then
        \<lparr>chk = \<lparr>score = 5, name = ''Referrer Policy'', status = ''good'', maxScore = 5\<rparr>,
         flag = True, pushed_issues = [], pushed_recommendations = []\<rparr>
      else
        \<lparr>chk = \<lparr>score = 0, name = ''Referrer Policy'', status = ''missing'', maxScore = 5\<rparr>,
         flag = False, pushed_issues = [], pushed_recommendations = []\<rparr>)"

definition sec_permissions :: "(string \<rightharpoonup> string) \<Rightarrow> block" where
  "sec_permissions h =
     (if truthy (h ''permissions-policy'') \<or> truthy (h ''feature-policy'') then
        \<lparr>chk = \<lparr>score = 5, name = ''Permissions Policy (Feature Policy)'', status = ''good'',
                 maxScore = 5\<rparr>,
         flag = True, pushed_issues = [], pushed_recommendations = []\<rparr>
      else
        \<lparr>chk = \<lparr>score = 0, name = ''Permissions Policy (Feature Policy)'', status = ''missing'',
                 maxScore = 5\<rparr>,
         flag = False, pushed_issues = [], pushed_recommendations = []\<rparr>)"

definition sec_mixedContent :: "platform \<Rightarrow> string \<Rightarrow> string \<Rightarrow> block" where
  \<open>sec_mixedContent js url h =
     (if prefix ''https://'' url then
        (let httpResources = match js ''http:%/%/[^"'%s]+%.(js|css|png|jpg|jpeg|gif|svg|woff|woff2)'' h;
             httpScripts = match js ''src=["']http:%/%/'' h;
             httpLinks = match js ''href=["']http:%/%/[^"']*%.(css|js)'' h
         in if length httpResources = 0 \<and> length httpScripts = 0 \<and> length httpLinks = 0 then
              \<lparr>chk = \<lparr>score = 10, name = ''Mixed Content'', status = ''good'', maxScore = 10\<rparr>,
               flag = True, pushed_issues = [], pushed_recommendations = []\<rparr>
            else
              \<lparr>chk = \<lparr>score = 0, name = ''Mixed Content'', status = ''missing'', maxScore = 10\<rparr>,
               flag = False,
               pushed_issues = [''Mixed content found - HTTP resources on HTTPS page''],
               pushed_recommendations = []\<rparr>)
      else
        \<lparr>chk = \<lparr>score = 0, name = ''Mixed Content'', status = ''partial'', maxScore = 10\<rparr>,
         flag = False, pushed_issues = [], pushed_recommendations = []\<rparr>)\<close>

definition sec_serverInfo :: "(string \<rightharpoonup> string) \<Rightarrow> block" where
  "sec_serverInfo h =
     (if \<not> truthy (h ''server'') \<and> \<not> truthy (h ''x-powered-by'') then
        \<lparr>chk = \<lparr>score = 5, name = ''Server Information Exposure'', status = ''good'',
                 maxScore = 5\<rparr>,
         flag = True, pushed_issues = [], pushed_recommendations = []\<rparr>
      else
        \<lparr>chk = \<lparr>score = 2, name = ''Server Information Exposure'', status = ''partial'',
                 maxScore = 5\<rparr>,
         flag = False, pushed_issues = [], pushed_recommendations = []\<rparr>)"

definition sec_blocks :: "platform \<Rightarrow> string \<Rightarrow> website_data \<Rightarrow> block list" where
  "sec_blocks js url d =
     (let h = htmlOf d;
          hs = (case headers d of None \<Rightarrow> Map.empty | Some m \<Rightarrow> m)
      in [sec_https url, sec_hsts hs, sec_csp hs, sec_frame hs, sec_mime hs,
          sec_referrer hs, sec_permissions hs, sec_mixedContent js url h, sec_serverInfo hs])"

record security_detailed_result = detailed_score +
  grade :: string
  secD_hasHttps :: bool
  summary :: string

definition analyzeSecurityHeaders_detailed ::
  "platform \<Rightarrow> string \<Rightarrow> website_data \<Rightarrow> security_detailed_result" where
  "analyzeSecurityHeaders_detailed js url d =
     (let bs = sec_blocks js url d;
          total = sum_list (map (\<lambda>b. score (chk b)) bs)
      in \<lparr>score = min total 100,
          issues = concat (map pushed_issues bs),
          checks = zip [''https'', ''hsts'', ''csp'', ''clickjacking'', ''mimeSniffing'',
                        ''referrerPolicy'', ''permissionsPolicy'', ''mixedContent'',
                        ''serverInfo'']
                       (map flag bs),
          detailedChecks = map chk bs,
          grade = (if total \<ge> 85 then ''A'' else if total \<ge> 70 then ''B''
                   else if total \<ge> 55 then ''C'' else if total \<ge> 40 then ''D'' else ''F''),
          secD_hasHttps = prefix ''https://'' url,
          summary =
            (if total \<ge> 70 then ''Good security posture with minor improvements possible.''
             else if total \<ge> 50 then ''Moderate security - several important headers missing.''
             else ''Security needs attention - multiple vulnerabilities detected.'')\<rparr>)"

section \<open>The ranges of the data model\<close>


section \<open>Concrete inputs\<close>

text \<open>
  The object \<^verbatim>\<open>{ error: error.message }\<close> that \<^verbatim>\<open>scrapeWebsiteData\<close> returns
  from its \<^verbatim>\<open>catch\<close>. Every other field is \<^verbatim>\<open>undefined\<close>: \<open>None\<close> where the
  field is an option, and the falsy value where a scorer reads it after the error test
  only.
\<close>

definition notDetected :: vendor_detection where
  "notDetected = \<lparr>detected = False, confidence = ''none'', providers = []\<rparr>"

definition noTool :: tool_detection where
  "noTool = \<lparr>detected = False, confidence = ''none'', types = []\<rparr>"

definition failedScrape :: "string \<Rightarrow> website_data" where
  "failedScrape message =
     \<lparr>error = Some message, html = None, headers = None, hasHttps = False,
      hasChatbot = notDetected, hasVoiceAgent = notDetected, hasCalculator = noTool,
      schemaMarkup = None, metaTags = None, headings = None, hasFAQ = False,
      localBusinessInfo = None, hasReviews = None, aeoIndicators = None\<rparr>"

text \<open>
  What \<^verbatim>\<open>scrapeWebsiteData\<close> returns for an empty document served over HTTPS
  without any of the headers the scorers look for: nothing is detected.
\<close>

definition noIndicators :: aeo_indicators where
  "noIndicators =
     \<lparr>hasDefinitiveStatements = False, hasQAFormat = False, hasStructuredLists = False,
      hasServiceDescriptions = False, hasLocalKeywords = False, hasExpertiseIndicators = False,
      hasProcessDescription = False, hasComparisonContent = False, hasStatistics = False,
      hasAuthorAttribution = False\<rparr>"

definition noSchema :: schema_markup where
  "noSchema =
     \<lparr>found = False, count = 0, schemas = [], hasLocalBusiness = False, hasFAQSchema = False,
      hasReviewSchema = False, hasServiceSchema = False\<rparr>"

definition noMeta :: meta_tags where
  "noMeta = \<lparr>title = None, description = None, ogTitle = None, ogDescription = None,
             canonical = None, robots = None\<rparr>"

definition emptyPage :: website_data where
  "emptyPage =
     \<lparr>error = None, html = Some [], headers = Some Map.empty, hasHttps = True,
      hasChatbot = notDetected, hasVoiceAgent = notDetected, hasCalculator = noTool,
      schemaMarkup = Some noSchema, metaTags = Some noMeta,
      headings = Some \<lparr>h1 = [], h2 = [], h3 = []\<rparr>, hasFAQ = False,
      localBusinessInfo = Some \<lparr>phone = None, hasAddress = False, hasHours = False\<rparr>,
      hasReviews = Some \<lparr>detected = False, hasStarRating = False\<rparr>,
      aeoIndicators = Some noIndicators\<rparr>"

text \<open>
  A platform given by tables, for concrete pages: \<open>((p, s), ms)\<close> in the first
  table says that the pattern \<open>p\<close> has the matches \<open>ms\<close> in \<open>s\<close>;
  \<open>((p, s), s')\<close> in the second that replacing the matches of \<open>p\<close> in \<open>s\<close>
  by the empty string leaves \<open>s'\<close>; \<open>(s, v)\<close> in the third that \<open>s\<close>
  parses to \<open>v\<close>. Anything else matches nothing, is left as it is, and does not
  parse.
\<close>

definition tabled ::
  "((string \<times> string) \<times> string list) list \<Rightarrow> ((string \<times> string) \<times> string) list
     \<Rightarrow> (string \<times> json) list \<Rightarrow> platform" where
  "tabled matches replacements parses =
     \<lparr>matchAll = (\<lambda>p s. case map_of matches (p, s) of Some ms \<Rightarrow> ms | None \<Rightarrow> []),
      replaceAll = (\<lambda>p r s. case map_of replacements (p, s) of Some s' \<Rightarrow> s' | None \<Rightarrow> s),
      parseJSON = map_of parses\<rparr>"

text \<open>The platform on pages where no pattern matches.\<close>

definition silent :: platform where
  "silent = tabled [] [] []"

text \<open>Pages that differ from the empty one in a few signals.\<close>

definition richPage :: website_data where
  "richPage = emptyPage
     \<lparr>schemaMarkup := Some (noSchema\<lparr>found := True, count := 1, hasLocalBusiness := True\<rparr>),
      hasFAQ := True,
      aeoIndicators := Some (noIndicators\<lparr>hasStructuredLists := True\<rparr>)\<rparr>"

definition qaOnlyPage :: website_data where
  "qaOnlyPage = emptyPage\<lparr>aeoIndicators := Some (noIndicators\<lparr>hasQAFormat := True\<rparr>)\<rparr>"

definition faqSchemaPage :: website_data where
  "faqSchemaPage = emptyPage
     \<lparr>schemaMarkup := Some (noSchema\<lparr>found := True, count := 1, hasFAQSchema := True\<rparr>)\<rparr>"

definition seoPage :: website_data where
  "seoPage = emptyPage
     \<lparr>metaTags := Some
        \<lparr>title = Some (replicate 45 CHR ''t''), description = Some (replicate 140 CHR ''d''),
         ogTitle = Some ''Acme Plumbing'', ogDescription = Some ''Plumbers in Austin'',
         canonical = Some ''https://example.com/'', robots = None\<rparr>,
      headings := Some \<lparr>h1 = [''Acme Plumbing''], h2 = [], h3 = []\<rparr>,
      schemaMarkup := Some (noSchema\<lparr>found := True, count := 1\<rparr>)\<rparr>"

text \<open>
  A page with a block of invalid JSON (a trailing comma) before a valid one, and a page
  whose only block declares an organization, each with the platform's behaviour on it.
\<close>

definition badBlock :: string where
  \<open>badBlock = ''<script type="application/ld+json">{"@type": "FAQPage",}</script>''\<close>

definition goodBlock :: string where
  \<open>goodBlock = ''<script type="application/ld+json">{"@type":"LocalBusiness"}</script>''\<close>

definition mixedHtml :: string where
  "mixedHtml = badBlock @ goodBlock"

definition mixedPlatform :: platform where
  \<open>mixedPlatform = tabled
     [((re jsonLdPattern, mixedHtml), [badBlock, goodBlock])]
     [((re scriptTagPattern, badBlock), ''{"@type": "FAQPage",}''),
      ((re scriptTagPattern, goodBlock), ''{"@type":"LocalBusiness"}'')]
     [(''{"@type":"LocalBusiness"}'', JObj [(''@type'', JStr ''LocalBusiness'')])]\<close>

definition orgBlock :: string where
  \<open>orgBlock = ''<script type="application/ld+json">{"@type":"Organization"}</script>''\<close>

definition orgPlatform :: platform where
  \<open>orgPlatform = tabled
     [((re jsonLdPattern, orgBlock), [orgBlock])]
     [((re scriptTagPattern, orgBlock), ''{"@type":"Organization"}'')]
     [(''{"@type":"Organization"}'', JObj [(''@type'', JStr ''Organization'')])]\<close>

definition orgPage :: website_data where
  "orgPage = emptyPage
     \<lparr>html := Some orgBlock, schemaMarkup := Some (extractSchemaMarkup orgPlatform orgBlock)\<rparr>"

text \<open>
  A page that loads a calculator vendor's script, and a page that sets a chat vendor's
  global object.
\<close>

definition calconicHtml :: string where
  \<open>calconicHtml = ''<script src="https://calconic.com/embed.js"></script>''\<close>

definition calconicPlatform :: platform where
  \<open>calconicPlatform = tabled
     [((re ''calconic%.com|outgrow%.co|calculoid%.com|ucalc%.pro'', calconicHtml),
       [''calconic.com''])] [] []\<close>

definition intercomHtml :: string where
  \<open>intercomHtml = ''<script>window.intercomSettings = {app_id: "abc"};</script>''\<close>

definition intercomPlatform :: platform where
  \<open>intercomPlatform = tabled
     [((re ''intercom%.com%/widget|window%.Intercom|intercomSettings'', intercomHtml),
       [''window.intercom''])] [] []\<close>

text \<open>
  Pages with images: in the first, one image of two has a non-empty \<^verbatim>\<open>alt\<close>; the
  second has one image, with a non-empty \<^verbatim>\<open>alt\<close>; in the third, none of two has.
\<close>

definition halfAltHtml :: string where
  \<open>halfAltHtml = ''<img src="a.png" alt="Logo"><img src="b.png">''\<close>

definition halfAltPlatform :: platform where
  \<open>halfAltPlatform = tabled
     [((re imgPattern, halfAltHtml), [''<img src="a.png" alt="Logo">'', ''<img src="b.png">'']),
      ((re altPattern, ''<img src="a.png" alt="Logo">''), [''alt="Logo"''])] [] []\<close>

definition allAltHtml :: string where
  \<open>allAltHtml = ''<img src="a.png" alt="Logo">''\<close>

definition allAltPlatform :: platform where
  \<open>allAltPlatform = tabled
     [((re imgPattern, allAltHtml), [''<img src="a.png" alt="Logo">'']),
      ((re altPattern, ''<img src="a.png" alt="Logo">''), [''alt="Logo"''])] [] []\<close>

definition noAltHtml :: string where
  \<open>noAltHtml = ''<img src="b.png"><img src="c.png" alt="">''\<close>

definition noAltPlatform :: platform where
  \<open>noAltPlatform = tabled
     [((re imgPattern, noAltHtml), [''<img src="b.png">'', ''<img src="c.png" alt="">''])] [] []\<close>

text \<open>
  A page that earns every point of the detailed SEO scorer: the page of the full-score
  scenario with a viewport tag, an Open Graph image and both schema flags.
\<close>

definition metaHtml :: string where
  \<open>metaHtml = ''<meta name="viewport" content="width=device-width"><meta property="og:image" content="https://example.com/a.png">''\<close>

definition metaPlatform :: platform where
  \<open>metaPlatform = tabled
     [((re ''<meta[^>]*name=["']viewport["']'', metaHtml), [''<meta name="viewport"'']),
      ((re ''<meta[^>]*property=["']og:image["']'', metaHtml), [''<meta property="og:image"''])]
     [] []\<close>

definition seoFullPage :: website_data where
  "seoFullPage = seoPage
     \<lparr>html := Some metaHtml,
      schemaMarkup := Some (noSchema\<lparr>found := True, count := 2, hasLocalBusiness := True,
                                     hasFAQSchema := True\<rparr>)\<rparr>"

section \<open>Properties\<close>

subsection \<open>Score ranges\<close>

lemma aeo_schemaCheck_range:
  "0 \<le> score (chk (aeo_schemaCheck d)) \<and> score (chk (aeo_schemaCheck d)) \<le> 20
   \<and> maxScore (chk (aeo_schemaCheck d)) = 20"
  by (simp add: aeo_schemaCheck_def)

lemma aeo_faqCheck_range:
  "0 \<le> score (chk (aeo_faqCheck d i)) \<and> score (chk (aeo_faqCheck d i)) \<le> 15
   \<and> maxScore (chk (aeo_faqCheck d i)) = 15"
  by (simp add: aeo_faqCheck_def)

lemma aeo_localCheck_range:
  "0 \<le> score (chk (aeo_localCheck d c)) \<and> score (chk (aeo_localCheck d c)) \<le> 15
   \<and> maxScore (chk (aeo_localCheck d c)) = 15"
  by (simp add: aeo_localCheck_def aeo_localScore_def Let_def)

lemma aeo_answersCheck_range:
  "0 \<le> score (chk (aeo_answersCheck d)) \<and> score (chk (aeo_answersCheck d)) \<le> 20
   \<and> maxScore (chk (aeo_answersCheck d)) = 20"
  by (simp add: aeo_answersCheck_def aeo_answersScore_def Let_def)

lemma aeo_expertiseCheck_range:
  "0 \<le> score (chk (aeo_expertiseCheck d)) \<and> score (chk (aeo_expertiseCheck d)) \<le> 15
   \<and> maxScore (chk (aeo_expertiseCheck d)) = 15"
  by (simp add: aeo_expertiseCheck_def aeo_expertiseScore_def Let_def)

lemma aeo_structureCheck_range:
  "0 \<le> score (chk (aeo_structureCheck d)) \<and> score (chk (aeo_structureCheck d)) \<le> 15
   \<and> maxScore (chk (aeo_structureCheck d)) = 15"
  by (simp add: aeo_structureCheck_def aeo_structureScore_def Let_def)








lemma seoD_checks_range:
  "0 \<le> score (chk (seoD_title d)) \<and> score (chk (seoD_title d)) \<le> maxScore (chk (seoD_title d))"
  "0 \<le> score (chk (seoD_description d)) \<and> score (chk (seoD_description d)) \<le> maxScore (chk (seoD_description d))"
  "0 \<le> score (chk (seoD_h1 d)) \<and> score (chk (seoD_h1 d)) \<le> maxScore (chk (seoD_h1 d))"
  "0 \<le> score (chk (seoD_schema d)) \<and> score (chk (seoD_schema d)) \<le> maxScore (chk (seoD_schema d))"
  "0 \<le> score (chk (seoD_canonical d)) \<and> score (chk (seoD_canonical d)) \<le> maxScore (chk (seoD_canonical d))"
  "0 \<le> score (chk (seoD_openGraph js d)) \<and> score (chk (seoD_openGraph js d)) \<le> maxScore (chk (seoD_openGraph js d))"
  "0 \<le> score (chk (seoD_robots d)) \<and> score (chk (seoD_robots d)) \<le> maxScore (chk (seoD_robots d))"
  "0 \<le> score (chk (seoD_mobile js d p)) \<and> score (chk (seoD_mobile js d p)) \<le> maxScore (chk (seoD_mobile js d p))"
  "0 \<le> score (chk (seoD_https d)) \<and> score (chk (seoD_https d)) \<le> maxScore (chk (seoD_https d))"
  "0 \<le> score (chk (seoD_coreWebVitals p)) \<and> score (chk (seoD_coreWebVitals p)) \<le> maxScore (chk (seoD_coreWebVitals p))"
  by (simp_all add: seoD_title_def seoD_description_def seoD_h1_def seoD_schema_def
      seoD_canonical_def seoD_openGraph_def seoD_robots_def seoD_mobile_def seoD_https_def
      seoD_coreWebVitals_def Let_def)



lemma sec_checks_range:
  "0 \<le> score (chk (sec_https url)) \<and> score (chk (sec_https url)) \<le> maxScore (chk (sec_https url))"
  "0 \<le> score (chk (sec_hsts h)) \<and> score (chk (sec_hsts h)) \<le> maxScore (chk (sec_hsts h))"
  "0 \<le> score (chk (sec_csp h)) \<and> score (chk (sec_csp h)) \<le> maxScore (chk (sec_csp h))"
  "0 \<le> score (chk (sec_frame h)) \<and> score (chk (sec_frame h)) \<le> maxScore (chk (sec_frame h))"
  "0 \<le> score (chk (sec_mime h)) \<and> score (chk (sec_mime h)) \<le> maxScore (chk (sec_mime h))"
  "0 \<le> score (chk (sec_referrer h)) \<and> score (chk (sec_referrer h)) \<le> maxScore (chk (sec_referrer h))"
  "0 \<le> score (chk (sec_permissions h)) \<and> score (chk (sec_permissions h)) \<le> maxScore (chk (sec_permissions h))"
  "0 \<le> score (chk (sec_mixedContent js url s)) \<and> score (chk (sec_mixedContent js url s)) \<le> maxScore (chk (sec_mixedContent js url s))"
  "0 \<le> score (chk (sec_serverInfo h)) \<and> score (chk (sec_serverInfo h)) \<le> maxScore (chk (sec_serverInfo h))"
  by (simp_all add: sec_https_def sec_hsts_def sec_csp_def sec_frame_def sec_mime_def
      sec_referrer_def sec_permissions_def sec_mixedContent_def sec_serverInfo_def Let_def)









text \<open>
  The clamp is needed: the ten checks of the detailed SEO scorer add up to 115 on a page
  that passes them all, and the score is 100.
\<close>

lemma seo_detailed_clamped:
  "map score (detailedChecks (analyzeSEO_detailed metaPlatform seoFullPage
       (Some \<lparr>performance_score = Num 0.95, accessibility_score = Num 0.87\<rparr>)))
     = [15, 15, 15, 15, 10, 10, 5, 10, 10, 10]
   \<and> score (analyzeSEO_detailed metaPlatform seoFullPage
       (Some \<lparr>performance_score = Num 0.95, accessibility_score = Num 0.87\<rparr>)) = 100"
  by (simp add: analyzeSEO_detailed_def seoD_blocks_def seoD_title_def seoD_description_def
      seoD_h1_def seoD_schema_def seoD_canonical_def seoD_openGraph_def seoD_robots_def
      seoD_mobile_def seoD_https_def seoD_coreWebVitals_def meta_def h1Length_def opt_def
      truthy_def includes_opt_def performanceScore_def htmlOf_def test_def match_def
      metaPlatform_def tabled_def seoFullPage_def seoPage_def emptyPage_def noSchema_def
      Let_def)





subsection \<open>The concrete pages\<close>

lemmas empty_defs = emptyPage_def noSchema_def noIndicators_def noMeta_def notDetected_def
  noTool_def

lemma emptyPage_no_error: "\<not> truthy (error emptyPage)"
  by (simp add: empty_defs truthy_def)

lemma richPage_no_error: "\<not> truthy (error richPage)"
  by (simp add: richPage_def empty_defs truthy_def)

lemma qaOnlyPage_no_error: "\<not> truthy (error qaOnlyPage)"
  by (simp add: qaOnlyPage_def empty_defs truthy_def)

lemma faqSchemaPage_no_error: "\<not> truthy (error faqSchemaPage)"
  by (simp add: faqSchemaPage_def empty_defs truthy_def)

lemma seoPage_no_error: "\<not> truthy (error seoPage)"
  by (simp add: seoPage_def empty_defs truthy_def)

subsection \<open>Detailed checks\<close>

lemma aeo_detailedChecks:
  "\<not> truthy (error d) \<Longrightarrow>
     detailedChecks (analyzeAEOGEO d industry city companyName) =
       [chk (aeo_schemaCheck d), chk (aeo_faqCheck d industry), chk (aeo_localCheck d city),
        chk (aeo_answersCheck d), chk (aeo_expertiseCheck d), chk (aeo_structureCheck d)]"
  by (simp add: analyzeAEOGEO_def aeo_blocks_def Let_def)

lemma aeo_detailed_ok:
  "(\<forall>c \<in> set (detailedChecks (analyzeAEOGEO d industry city companyName)).
       0 \<le> score c \<and> score c \<le> maxScore c)
   \<and> min (sum_list (map score (detailedChecks (analyzeAEOGEO d industry city companyName)))) 100
       = score (analyzeAEOGEO d industry city companyName)"
proof (cases "truthy (error d)")
  case True
  then show ?thesis by (simp add: analyzeAEOGEO_def)
next
  case False
  have s: "score (analyzeAEOGEO d industry city companyName)
           = min (sum_list (map (\<lambda>b. score (chk b)) (aeo_blocks d industry city))) 100"
    using False by (simp add: analyzeAEOGEO_def Let_def)
  show ?thesis
    using aeo_schemaCheck_range [of d] aeo_faqCheck_range [of d industry]
      aeo_localCheck_range [of d city] aeo_answersCheck_range [of d]
      aeo_expertiseCheck_range [of d] aeo_structureCheck_range [of d]
    by (simp add: s aeo_detailedChecks [OF False] aeo_blocks_def)
qed

lemma seoD_detailed_ok:
  "(\<forall>c \<in> set (detailedChecks (analyzeSEO_detailed js d p)).
       0 \<le> score c \<and> score c \<le> maxScore c)
   \<and> min (sum_list (map score (detailedChecks (analyzeSEO_detailed js d p)))) 100
       = score (analyzeSEO_detailed js d p)"
proof (cases "truthy (error d)")
  case True
  then show ?thesis by (simp add: analyzeSEO_detailed_def)
next
  case False
  then show ?thesis
    by (simp add: analyzeSEO_detailed_def seoD_blocks_def Let_def seoD_checks_range)
qed

lemma sec_detailed_ok:
  "(\<forall>c \<in> set (detailedChecks (analyzeSecurityHeaders_detailed js url d)).
       0 \<le> score c \<and> score c \<le> maxScore c)
   \<and> min (sum_list (map score (detailedChecks (analyzeSecurityHeaders_detailed js url d)))) 100
       = score (analyzeSecurityHeaders_detailed js url d)"
  by (simp add: analyzeSecurityHeaders_detailed_def sec_blocks_def Let_def sec_checks_range)

text \<open>
  C3. Every detailed check a scorer produces has a score between 0 and its
  \<^verbatim>\<open>maxScore\<close>, and the sum of the scores of a scorer's detailed checks, clamped
  to 100, is the score the scorer reports: for the AEO/GEO scorer, the detailed security
  scorer and the detailed SEO scorer.
\<close>

theorem detailed_checks_consistent:
  "((\<forall>c \<in> set (detailedChecks (analyzeAEOGEO d industry city companyName)).
       0 \<le> score c \<and> score c \<le> maxScore c)
    \<and> min (sum_list (map score (detailedChecks (analyzeAEOGEO d industry city companyName)))) 100
        = score (analyzeAEOGEO d industry city companyName))
   \<and> ((\<forall>c \<in> set (detailedChecks (analyzeSecurityHeaders_detailed js url d)).
       0 \<le> score c \<and> score c \<le> maxScore c)
    \<and> min (sum_list (map score (detailedChecks (analyzeSecurityHeaders_detailed js url d)))) 100
        = score (analyzeSecurityHeaders_detailed js url d))
   \<and> ((\<forall>c \<in> set (detailedChecks (analyzeSEO_detailed js d pageSpeedData)).
       0 \<le> score c \<and> score c \<le> maxScore c)
    \<and> min (sum_list (map score (detailedChecks (analyzeSEO_detailed js d pageSpeedData)))) 100
        = score (analyzeSEO_detailed js d pageSpeedData))"
  using aeo_detailed_ok [of d industry city companyName] sec_detailed_ok [of js url d]
    seoD_detailed_ok [of js d pageSpeedData]
  by blast

theorem detailed_checks_consistent_witness:
  "chk (aeo_schemaCheck richPage)
     \<in> set (detailedChecks (analyzeAEOGEO richPage ''plumbing'' ''Austin'' ''Acme''))
   \<and> 0 \<le> score (chk (aeo_schemaCheck richPage))
   \<and> score (chk (aeo_schemaCheck richPage)) \<le> maxScore (chk (aeo_schemaCheck richPage))
   \<and> score (chk (aeo_schemaCheck richPage)) = 15
   \<and> maxScore (chk (aeo_schemaCheck richPage)) = 20
   \<and> map score (detailedChecks (analyzeAEOGEO richPage ''plumbing'' ''Austin'' ''Acme''))
       = [15, 10, 0, 0, 0, 8]
   \<and> score (analyzeAEOGEO richPage ''plumbing'' ''Austin'' ''Acme'') = 33"
proof -
  let ?r = "analyzeAEOGEO richPage ''plumbing'' ''Austin'' ''Acme''"
  have m: "chk (aeo_schemaCheck richPage) \<in> set (detailedChecks ?r)"
    by (simp add: aeo_detailedChecks [OF richPage_no_error])
  have v: "score (chk (aeo_schemaCheck richPage)) = 15 \<and> maxScore (chk (aeo_schemaCheck richPage)) = 20"
    by (simp add: aeo_schemaCheck_def richPage_def empty_defs opt_def)
  have l: "map score (detailedChecks ?r) = [15, 10, 0, 0, 0, 8]"
    unfolding aeo_detailedChecks [OF richPage_no_error]
    by (simp add: aeo_schemaCheck_def
        aeo_faqCheck_def aeo_localCheck_def aeo_localScore_def aeo_answersCheck_def
        aeo_answersScore_def aeo_expertiseCheck_def aeo_expertiseScore_def
        aeo_structureCheck_def aeo_structureScore_def aeo_def richPage_def empty_defs opt_def
        truthy_def
        Let_def)
  from detailed_checks_consistent [of richPage "''plumbing''" "''Austin''" "''Acme''" silent
      "''https://example.com''" None]
  have r: "\<forall>c \<in> set (detailedChecks ?r). 0 \<le> score c \<and> score c \<le> maxScore c"
    and s: "min (sum_list (map score (detailedChecks ?r))) 100 = score ?r"
    by blast+
  from s l have "score ?r = 33" by simp
  with m v l r show ?thesis by blast
qed

subsection \<open>The checks of the AEO/GEO scorer\<close>

lemma aeo_structureCheck_chk:
  "chk (aeo_structureCheck d) =
     \<lparr>score = (if aeo d hasStructuredLists \<and> aeo d hasQAFormat then 15
               else if aeo d hasStructuredLists then 8
               else if aeo d hasQAFormat then 7 else 0),
      name = ''Structured Content Format'',
      status = (if aeo d hasStructuredLists \<and> aeo d hasQAFormat then ''good''
                else if aeo d hasStructuredLists \<or> aeo d hasQAFormat then ''partial''
                else ''missing''),
      maxScore = 15\<rparr>"
  by (simp add: aeo_structureCheck_def aeo_structureScore_def Let_def)

text \<open>
  C7, as stated, fails: a page whose indicators show the Q&A format and no structured
  list scores 7 in the structured-formatting check, not 8.
\<close>

theorem structured_formatting_qa_only_counterexample:
  "aeo qaOnlyPage hasQAFormat \<and> \<not> aeo qaOnlyPage hasStructuredLists
   \<and> name (detailedChecks (analyzeAEOGEO qaOnlyPage ''plumbing'' ''Austin'' ''Acme'') ! 5)
       = ''Structured Content Format''
   \<and> score (detailedChecks (analyzeAEOGEO qaOnlyPage ''plumbing'' ''Austin'' ''Acme'') ! 5) = 7
   \<and> score (detailedChecks (analyzeAEOGEO qaOnlyPage ''plumbing'' ''Austin'' ''Acme'') ! 5) \<noteq> 8"
  unfolding aeo_detailedChecks [OF qaOnlyPage_no_error]
  by (simp add: aeo_structureCheck_chk aeo_def opt_def qaOnlyPage_def empty_defs)

text \<open>
  C7, amended. The structured-formatting check (\<^verbatim>\<open>maxScore\<close> 15) adds 8 for
  structured lists and 7 for the Q&A format: 15 with both, 8 with lists only, 7 with the
  Q&A format only, 0 with neither.
\<close>

theorem structured_formatting_scores:
  assumes "\<not> truthy (error d)"
  shows "name (detailedChecks (analyzeAEOGEO d industry city companyName) ! 5)
           = ''Structured Content Format''
       \<and> maxScore (detailedChecks (analyzeAEOGEO d industry city companyName) ! 5) = 15
       \<and> score (detailedChecks (analyzeAEOGEO d industry city companyName) ! 5)
           = (if aeo d hasStructuredLists \<and> aeo d hasQAFormat then 15
              else if aeo d hasStructuredLists then 8
              else if aeo d hasQAFormat then 7
              else 0)"
  by (simp add: aeo_detailedChecks [OF assms] aeo_structureCheck_chk)

theorem structured_formatting_scores_witness:
  "\<not> truthy (error richPage)
   \<and> aeo richPage hasStructuredLists \<and> \<not> aeo richPage hasQAFormat
   \<and> score (detailedChecks (analyzeAEOGEO richPage ''plumbing'' ''Austin'' ''Acme'') ! 5) = 8"
  using structured_formatting_scores [OF richPage_no_error, of "''plumbing''" "''Austin''" "''Acme''"]
    richPage_no_error
  by (simp add: aeo_def opt_def richPage_def empty_defs)

lemma aeo_faqCheck_chk:
  "chk (aeo_faqCheck d industry) =
     (if opt (schemaMarkup d) hasFAQSchema
      then \<lparr>score = 15, name = ''FAQ Content'', status = ''good'', maxScore = 15\<rparr>
      else if hasFAQ d
      then \<lparr>score = 10, name = ''FAQ Content'', status = ''partial'', maxScore = 15\<rparr>
      else \<lparr>score = 0, name = ''FAQ Content'', status = ''missing'', maxScore = 15\<rparr>)"
  by (simp add: aeo_faqCheck_def)

text \<open>
  C10. In the FAQ-content check of the AEO/GEO scorer, a page with the FAQPage schema
  and no FAQ text scores 15 with status good, a page with FAQ text and no FAQPage schema
  scores 10 with status partial, and the check scores 0 exactly when both are absent.
\<close>

theorem faq_check_scores:
  assumes "\<not> truthy (error d)"
  shows "name (detailedChecks (analyzeAEOGEO d industry city companyName) ! 1) = ''FAQ Content''
       \<and> (opt (schemaMarkup d) hasFAQSchema \<and> \<not> hasFAQ d \<longrightarrow>
            score (detailedChecks (analyzeAEOGEO d industry city companyName) ! 1) = 15
            \<and> status (detailedChecks (analyzeAEOGEO d industry city companyName) ! 1) = ''good'')
       \<and> (hasFAQ d \<and> \<not> opt (schemaMarkup d) hasFAQSchema \<longrightarrow>
            score (detailedChecks (analyzeAEOGEO d industry city companyName) ! 1) = 10
            \<and> status (detailedChecks (analyzeAEOGEO d industry city companyName) ! 1) = ''partial'')
       \<and> (score (detailedChecks (analyzeAEOGEO d industry city companyName) ! 1) = 0
            \<longleftrightarrow> \<not> hasFAQ d \<and> \<not> opt (schemaMarkup d) hasFAQSchema)"
  by (simp add: aeo_detailedChecks [OF assms] aeo_faqCheck_chk)

theorem faq_check_scores_witness:
  "(\<not> truthy (error faqSchemaPage)
    \<and> opt (schemaMarkup faqSchemaPage) hasFAQSchema \<and> \<not> hasFAQ faqSchemaPage
    \<and> score (detailedChecks (analyzeAEOGEO faqSchemaPage ''plumbing'' ''Austin'' ''Acme'') ! 1) = 15
    \<and> status (detailedChecks (analyzeAEOGEO faqSchemaPage ''plumbing'' ''Austin'' ''Acme'') ! 1)
        = ''good'')
   \<and> (\<not> truthy (error richPage)
    \<and> hasFAQ richPage \<and> \<not> opt (schemaMarkup richPage) hasFAQSchema
    \<and> score (detailedChecks (analyzeAEOGEO richPage ''plumbing'' ''Austin'' ''Acme'') ! 1) = 10
    \<and> status (detailedChecks (analyzeAEOGEO richPage ''plumbing'' ''Austin'' ''Acme'') ! 1)
        = ''partial'')
   \<and> (\<not> truthy (error emptyPage)
    \<and> \<not> hasFAQ emptyPage \<and> \<not> opt (schemaMarkup emptyPage) hasFAQSchema
    \<and> score (detailedChecks (analyzeAEOGEO emptyPage ''plumbing'' ''Austin'' ''Acme'') ! 1) = 0)"
proof -
  have a: "opt (schemaMarkup faqSchemaPage) hasFAQSchema \<and> \<not> hasFAQ faqSchemaPage"
    by (simp add: faqSchemaPage_def emptyPage_def noSchema_def opt_def)
  have b: "hasFAQ richPage \<and> \<not> opt (schemaMarkup richPage) hasFAQSchema"
    by (simp add: richPage_def emptyPage_def noSchema_def opt_def)
  have c: "\<not> hasFAQ emptyPage \<and> \<not> opt (schemaMarkup emptyPage) hasFAQSchema"
    by (simp add: emptyPage_def noSchema_def opt_def)
  from faq_check_scores [OF faqSchemaPage_no_error, of "''plumbing''" "''Austin''" "''Acme''"]
    faq_check_scores [OF richPage_no_error, of "''plumbing''" "''Austin''" "''Acme''"]
    faq_check_scores [OF emptyPage_no_error, of "''plumbing''" "''Austin''" "''Acme''"]
    a b c faqSchemaPage_no_error emptyPage_no_error richPage_no_error
  show ?thesis by blast
qed

subsection \<open>The SEO full-score scenario\<close>

text \<open>
  C4. A page without error marker whose title has 45 characters and whose description
  has 140, with exactly one H1, schema markup found, HTTPS, a canonical URL, both Open
  Graph tags, and a mobile performance score of 0.6 gets the SEO score 100.
\<close>

theorem seo_full_score:
  assumes "\<not> truthy (error d)"
    and "meta d title = Some t" and "length t = 45"
    and "meta d description = Some ds" and "length ds = 140"
    and "h1Length d = Some 1"
    and "opt (schemaMarkup d) found"
    and "hasHttps d"
    and "truthy (meta d canonical)"
    and "performanceScore pageSpeedData = Num 0.6"
    and "truthy (meta d ogTitle)" and "truthy (meta d ogDescription)"
  shows "score (analyzeSEO d pageSpeedData) = 100"
proof -
  have "t \<noteq> []" "ds \<noteq> []" using assms(3,5) by auto
  then show ?thesis
    using assms
    by (simp add: analyzeSEO_def seo_steps_def seo_title_def seo_description_def seo_h1_def
        seo_schema_def seo_https_def seo_canonical_def seo_mobile_def seo_openGraph_def Let_def)
qed

theorem seo_full_score_witness:
  "\<not> truthy (error seoPage)
   \<and> meta seoPage title = Some (replicate 45 CHR ''t'') \<and> length (replicate 45 CHR ''t'') = 45
   \<and> meta seoPage description = Some (replicate 140 CHR ''d'')
   \<and> length (replicate 140 CHR ''d'') = 140
   \<and> h1Length seoPage = Some 1
   \<and> opt (schemaMarkup seoPage) found
   \<and> hasHttps seoPage
   \<and> truthy (meta seoPage canonical)
   \<and> performanceScore (Some \<lparr>performance_score = Num 0.6, accessibility_score = Undefined\<rparr>)
       = Num 0.6
   \<and> truthy (meta seoPage ogTitle) \<and> truthy (meta seoPage ogDescription)
   \<and> score (analyzeSEO seoPage
        (Some \<lparr>performance_score = Num 0.6, accessibility_score = Undefined\<rparr>)) = 100"
proof -
  let ?p = "Some \<lparr>performance_score = Num 0.6, accessibility_score = Undefined\<rparr>"
  have h: "meta seoPage title = Some (replicate 45 CHR ''t'')"
    "length (replicate 45 CHR ''t'') = 45"
    "meta seoPage description = Some (replicate 140 CHR ''d'')"
    "length (replicate 140 CHR ''d'') = 140"
    "h1Length seoPage = Some 1"
    "opt (schemaMarkup seoPage) found"
    "hasHttps seoPage"
    "truthy (meta seoPage canonical)"
    "performanceScore ?p = Num 0.6"
    "truthy (meta seoPage ogTitle)" "truthy (meta seoPage ogDescription)"
    by (simp_all add: seoPage_def emptyPage_def noSchema_def meta_def h1Length_def opt_def
        truthy_def performanceScore_def)
  from seo_full_score [OF seoPage_no_error h] seoPage_no_error h
  show ?thesis by blast
qed

subsection \<open>The degenerate scenario\<close>

text \<open>
  C2, as stated, fails: the security scorer does not look at the error marker. For the
  object of a failed fetch and an HTTPS address it returns 70, with no issue.
\<close>

theorem degenerate_security_counterexample:
  "truthy (error (failedScrape ''fetch failed''))
   \<and> score (analyzeSecurityHeaders ''https://example.com'' (failedScrape ''fetch failed'')) = 70
   \<and> issues (analyzeSecurityHeaders ''https://example.com'' (failedScrape ''fetch failed'')) = []"
  by (simp add: failedScrape_def truthy_def analyzeSecurityHeaders_def Let_def)

text \<open>
  C2, amended. When the page data carries an error marker (and so no headers) and the
  performance report is \<^verbatim>\<open>null\<close>, the AI readiness, AEO/GEO, SEO and accessibility
  scorers return the score 0, and the AI readiness and accessibility results carry one
  explanatory issue each. The security scorer scores the address alone and adds the 30
  points it grants when the headers could not be checked: 70 for an HTTPS address, 30
  otherwise.
\<close>

theorem degenerate_scores:
  assumes "truthy (error d)" and "headers d = None"
  shows "score (analyzeAIReadiness d) = 0
       \<and> issues (analyzeAIReadiness d) = [''Could not analyze website'']
       \<and> score (analyzeAEOGEO d industry city companyName) = 0
       \<and> score (analyzeSEO d None) = 0
       \<and> score (analyzeAccessibility js d None) = 0
       \<and> issues (analyzeAccessibility js d None) = [''Could not analyze website HTML'']
       \<and> score (analyzeSecurityHeaders url d) = (if prefix ''https://'' url then 70 else 30)"
  using assms
  by (simp add: analyzeAIReadiness_def analyzeAEOGEO_def analyzeSEO_def analyzeAccessibility_def
      lighthousePoints_def lighthousePercent_def accessibilityScore_def
      analyzeSecurityHeaders_def Let_def)

theorem degenerate_scores_witness:
  "truthy (error (failedScrape ''fetch failed'')) \<and> headers (failedScrape ''fetch failed'') = None
   \<and> score (analyzeAIReadiness (failedScrape ''fetch failed'')) = 0
   \<and> issues (analyzeAIReadiness (failedScrape ''fetch failed'')) = [''Could not analyze website'']
   \<and> score (analyzeAEOGEO (failedScrape ''fetch failed'') ''plumbing'' ''Austin'' ''Acme'') = 0
   \<and> score (analyzeSEO (failedScrape ''fetch failed'') None) = 0
   \<and> score (analyzeAccessibility silent (failedScrape ''fetch failed'') None) = 0
   \<and> score (analyzeSecurityHeaders ''http://example.com'' (failedScrape ''fetch failed'')) = 30"
proof -
  have h: "truthy (error (failedScrape ''fetch failed''))"
    "headers (failedScrape ''fetch failed'') = None"
    by (simp_all add: failedScrape_def truthy_def)
  from degenerate_scores [OF h, of "''plumbing''" "''Austin''" "''Acme''" silent
      "''http://example.com''"] h
  show ?thesis by simp
qed

subsection \<open>Structured data\<close>

lemma schemas_extract:
  "schemas (extractSchemaMarkup js h) = List.map_filter (schemaOf js) (jsonLdMatches js h)"
  "count (extractSchemaMarkup js h) = length (schemas (extractSchemaMarkup js h))"
  "found (extractSchemaMarkup js h) = (schemas (extractSchemaMarkup js h) \<noteq> [])"
  by (simp_all add: extractSchemaMarkup_def Let_def)

lemma schemaOf_throws:
  "parseJSON js (content js m) = None \<Longrightarrow> schemaOf js m = None"
  by (simp add: schemaOf_def)

lemma typeOrUnknown_declared:
  "atType parsed = Some (JStr t) \<Longrightarrow> t \<noteq> [] \<Longrightarrow> typeOrUnknown parsed = JStr t"
  by (simp add: typeOrUnknown_def)

lemma schemaOf_declared:
  assumes "parseJSON js (content js m) = Some parsed" and "atType parsed = Some (JStr t)"
    and "t \<noteq> []"
  shows "schemaOf js m = Some \<lparr>type = ''JSON-LD'', schemaType = JStr t, data = parsed\<rparr>"
proof -
  from assms(2) have "parsed \<noteq> JNull" by auto
  with assms show ?thesis
    by (cases parsed) (simp_all add: schemaOf_def typeOrUnknown_def)
qed

text \<open>
  C5. When the page holds a block of invalid JSON and a valid block, in either order,
  \<^verbatim>\<open>extractSchemaMarkup\<close> skips the invalid block and returns the valid block's
  declared type in \<^verbatim>\<open>schemas\<close>, with \<^verbatim>\<open>count\<close> 1. It does not raise: the
  only operations of the loop that throw are the parse and the member read, and both
  are inside the \<^verbatim>\<open>try\<close>.
\<close>

theorem malformed_block_skipped:
  assumes "jsonLdMatches js h = [bad, good] \<or> jsonLdMatches js h = [good, bad]"
    and "parseJSON js (content js bad) = None"
    and "parseJSON js (content js good) = Some parsed"
    and "atType parsed = Some (JStr t)" and "t \<noteq> []"
  shows "schemas (extractSchemaMarkup js h)
           = [\<lparr>type = ''JSON-LD'', schemaType = JStr t, data = parsed\<rparr>]
       \<and> count (extractSchemaMarkup js h) = 1
       \<and> found (extractSchemaMarkup js h)"
proof -
  have b: "schemaOf js bad = None" using assms(2) by (rule schemaOf_throws)
  have g: "schemaOf js good = Some \<lparr>type = ''JSON-LD'', schemaType = JStr t, data = parsed\<rparr>"
    using assms(3-5) by (rule schemaOf_declared)
  from assms(1) have "schemas (extractSchemaMarkup js h)
      = [\<lparr>type = ''JSON-LD'', schemaType = JStr t, data = parsed\<rparr>]"
    by (auto simp add: schemas_extract(1) List.map_filter_simps b g)
  then show ?thesis by (simp add: schemas_extract(2,3))
qed

lemma mixed_facts:
  "jsonLdMatches mixedPlatform mixedHtml = [badBlock, goodBlock]"
  "parseJSON mixedPlatform (content mixedPlatform badBlock) = None"
  "parseJSON mixedPlatform (content mixedPlatform goodBlock)
     = Some (JObj [(''@type'', JStr ''LocalBusiness'')])"
  by (simp_all add: jsonLdMatches_def content_def match_def replace_def mixedPlatform_def
      tabled_def badBlock_def goodBlock_def)

theorem malformed_block_skipped_witness:
  \<open>(jsonLdMatches mixedPlatform mixedHtml = [badBlock, goodBlock]
      \<or> jsonLdMatches mixedPlatform mixedHtml = [goodBlock, badBlock])
   \<and> parseJSON mixedPlatform (content mixedPlatform badBlock) = None
   \<and> parseJSON mixedPlatform (content mixedPlatform goodBlock)
        = Some (JObj [(''@type'', JStr ''LocalBusiness'')])
   \<and> atType (JObj [(''@type'', JStr ''LocalBusiness'')]) = Some (JStr ''LocalBusiness'')
   \<and> ''LocalBusiness'' \<noteq> []
   \<and> schemas (extractSchemaMarkup mixedPlatform mixedHtml)
        = [\<lparr>type = ''JSON-LD'', schemaType = JStr ''LocalBusiness'',
            data = JObj [(''@type'', JStr ''LocalBusiness'')]\<rparr>]
   \<and> count (extractSchemaMarkup mixedPlatform mixedHtml) = 1
   \<and> found (extractSchemaMarkup mixedPlatform mixedHtml)\<close>
proof -
  have m: "jsonLdMatches mixedPlatform mixedHtml = [badBlock, goodBlock]
           \<or> jsonLdMatches mixedPlatform mixedHtml = [goodBlock, badBlock]"
    by (simp add: mixed_facts(1))
  have t: "atType (JObj [(''@type'', JStr ''LocalBusiness'')]) = Some (JStr ''LocalBusiness'')"
    "''LocalBusiness'' \<noteq> []"
    by simp_all
  from malformed_block_skipped [OF m mixed_facts(2,3) t] m mixed_facts(2,3) t
  show ?thesis by blast
qed

lemma typeOrUnknown_eq_iff:
  assumes "t \<noteq> ''Unknown''" and "t \<noteq> []"
  shows "typeOrUnknown parsed = JStr t \<longleftrightarrow> atType parsed = Some (JStr t)"
proof (cases "atType parsed")
  case None
  then show ?thesis using assms by (simp add: typeOrUnknown_def)
next
  case (Some v)
  then show ?thesis using assms by (cases v) (auto simp add: typeOrUnknown_def)
qed

lemma schemaOf_type_iff:
  assumes "t \<noteq> ''Unknown''" and "t \<noteq> []"
  shows "(\<exists>s. schemaOf js m = Some s \<and> schemaType s = JStr t)
         \<longleftrightarrow> (case parseJSON js (content js m) of
                None \<Rightarrow> False | Some parsed \<Rightarrow> atType parsed = Some (JStr t))"
proof (cases "parseJSON js (content js m)")
  case None
  then show ?thesis by (simp add: schemaOf_def)
next
  case (Some parsed)
  then show ?thesis
    using typeOrUnknown_eq_iff [OF assms, of parsed]
    by (cases parsed) (auto simp add: schemaOf_def)
qed

lemma set_map_filter_iff:
  "y \<in> set (List.map_filter f xs) \<longleftrightarrow> (\<exists>x \<in> set xs. f x = Some y)"
  by (induction xs) (auto simp add: List.map_filter_simps split: option.splits)

lemma declares_iff:
  assumes "t \<noteq> ''Unknown''" and "t \<noteq> []"
  shows "list_ex (\<lambda>s. schemaType s = JStr t) (schemas (extractSchemaMarkup js h))
         \<longleftrightarrow> declaresType js h t"
proof -
  have "list_ex (\<lambda>s. schemaType s = JStr t) (schemas (extractSchemaMarkup js h))
        \<longleftrightarrow> (\<exists>m \<in> set (jsonLdMatches js h). \<exists>s. schemaOf js m = Some s \<and> schemaType s = JStr t)"
    unfolding schemas_extract(1) list_ex_iff Bex_def set_map_filter_iff by blast
  also have "\<dots> \<longleftrightarrow> declaresType js h t"
    by (simp add: declaresType_def list_ex_iff schemaOf_type_iff [OF assms])
  finally show ?thesis .
qed

lemma list_ex_or: "list_ex (\<lambda>s. P s \<or> Q s) xs \<longleftrightarrow> list_ex P xs \<or> list_ex Q xs"
  by (auto simp add: list_ex_iff)

lemma flags_of_schemas:
  "hasLocalBusiness (extractSchemaMarkup js h)
     = list_ex (\<lambda>s. schemaType s = JStr ''LocalBusiness'' \<or> schemaType s = JStr ''Organization''
                    \<or> schemaType s = JStr ''ProfessionalService'')
         (schemas (extractSchemaMarkup js h))"
  "hasFAQSchema (extractSchemaMarkup js h)
     = list_ex (\<lambda>s. schemaType s = JStr ''FAQPage'') (schemas (extractSchemaMarkup js h))"
  "hasReviewSchema (extractSchemaMarkup js h)
     = list_ex (\<lambda>s. schemaType s = JStr ''Review'' \<or> schemaType s = JStr ''AggregateRating'')
         (schemas (extractSchemaMarkup js h))"
  "hasServiceSchema (extractSchemaMarkup js h)
     = list_ex (\<lambda>s. schemaType s = JStr ''Service'' \<or> schemaType s = JStr ''Product'')
         (schemas (extractSchemaMarkup js h))"
  by (simp_all add: extractSchemaMarkup_def Let_def)

lemma flags_extract:
  "hasLocalBusiness (extractSchemaMarkup js h)
     \<longleftrightarrow> declaresType js h ''LocalBusiness'' \<or> declaresType js h ''Organization''
         \<or> declaresType js h ''ProfessionalService''"
  "hasFAQSchema (extractSchemaMarkup js h) \<longleftrightarrow> declaresType js h ''FAQPage''"
  "hasReviewSchema (extractSchemaMarkup js h)
     \<longleftrightarrow> declaresType js h ''Review'' \<or> declaresType js h ''AggregateRating''"
  "hasServiceSchema (extractSchemaMarkup js h)
     \<longleftrightarrow> declaresType js h ''Service'' \<or> declaresType js h ''Product''"
  by (simp_all only: flags_of_schemas list_ex_or) (simp_all add: declares_iff)

lemma declares_found:
  assumes "declaresType js h t" and "t \<noteq> ''Unknown''" and "t \<noteq> []"
  shows "found (extractSchemaMarkup js h)"
proof -
  from assms have "list_ex (\<lambda>s. schemaType s = JStr t) (schemas (extractSchemaMarkup js h))"
    by (simp add: declares_iff)
  then have "schemas (extractSchemaMarkup js h) \<noteq> []" by auto
  then show ?thesis by (simp add: schemas_extract(3))
qed

text \<open>
  C9. \<^verbatim>\<open>hasLocalBusiness\<close> holds exactly when some parsed block declares the
  top-level type LocalBusiness, Organization or ProfessionalService, and likewise
  \<^verbatim>\<open>hasReviewSchema\<close> for Review and AggregateRating and \<^verbatim>\<open>hasServiceSchema\<close>
  for Service and Product. So a page whose schema is an Organization, and no FAQPage,
  gets 10 + 5 for its schema in the AI readiness scorer and in the schema check of the
  AEO/GEO scorer.
\<close>

theorem schema_type_flags:
  "(hasLocalBusiness (extractSchemaMarkup js h)
      \<longleftrightarrow> declaresType js h ''LocalBusiness'' \<or> declaresType js h ''Organization''
          \<or> declaresType js h ''ProfessionalService'')
   \<and> (hasReviewSchema (extractSchemaMarkup js h)
      \<longleftrightarrow> declaresType js h ''Review'' \<or> declaresType js h ''AggregateRating'')
   \<and> (hasServiceSchema (extractSchemaMarkup js h)
      \<longleftrightarrow> declaresType js h ''Service'' \<or> declaresType js h ''Product'')
   \<and> (\<not> truthy (error d) \<and> schemaMarkup d = Some (extractSchemaMarkup js h)
       \<and> declaresType js h ''Organization'' \<and> \<not> declaresType js h ''FAQPage''
      \<longrightarrow> score (analyzeAIReadiness d)
            = (if detected (hasChatbot d) then 30 else 0)
              + (if detected (hasVoiceAgent d) then 25 else 0)
              + (if detected (hasCalculator d) then 25 else 0)
              + (10 + 5)
          \<and> score (detailedChecks (analyzeAEOGEO d industry city companyName) ! 0) = 10 + 5)"
proof -
  have "score (analyzeAIReadiness d)
            = (if detected (hasChatbot d) then 30 else 0)
              + (if detected (hasVoiceAgent d) then 25 else 0)
              + (if detected (hasCalculator d) then 25 else 0)
              + (10 + 5)
          \<and> score (detailedChecks (analyzeAEOGEO d industry city companyName) ! 0) = 10 + 5"
    if e: "\<not> truthy (error d)" and s: "schemaMarkup d = Some (extractSchemaMarkup js h)"
      and o: "declaresType js h ''Organization''" and f: "\<not> declaresType js h ''FAQPage''"
  proof -
    have 1: "opt (schemaMarkup d) found" using declares_found [OF o] s by (simp add: opt_def)
    have 2: "opt (schemaMarkup d) hasLocalBusiness" using o s by (simp add: opt_def flags_extract)
    have 3: "\<not> opt (schemaMarkup d) hasFAQSchema" using f s by (simp add: opt_def flags_extract)
    show ?thesis
      using e 1 2 3
      by (simp add: analyzeAIReadiness_def Let_def aeo_detailedChecks [OF e] aeo_schemaCheck_def)
  qed
  then show ?thesis using flags_extract(1,3,4) [of js h] by blast
qed

lemma org_facts:
  "declaresType orgPlatform orgBlock ''Organization''"
  "\<not> declaresType orgPlatform orgBlock ''FAQPage''"
  by (simp_all add: declaresType_def jsonLdMatches_def content_def match_def replace_def
      orgPlatform_def tabled_def)

theorem schema_type_flags_witness:
  "\<not> truthy (error orgPage)
   \<and> schemaMarkup orgPage = Some (extractSchemaMarkup orgPlatform orgBlock)
   \<and> declaresType orgPlatform orgBlock ''Organization''
   \<and> \<not> declaresType orgPlatform orgBlock ''FAQPage''
   \<and> hasLocalBusiness (extractSchemaMarkup orgPlatform orgBlock)
   \<and> score (analyzeAIReadiness orgPage) = 15
   \<and> score (detailedChecks (analyzeAEOGEO orgPage ''plumbing'' ''Austin'' ''Acme'') ! 0) = 15"
proof -
  have e: "\<not> truthy (error orgPage)" "schemaMarkup orgPage = Some (extractSchemaMarkup orgPlatform orgBlock)"
    by (simp_all add: orgPage_def emptyPage_def truthy_def)
  have d: "\<not> detected (hasChatbot orgPage)" "\<not> detected (hasVoiceAgent orgPage)"
    "\<not> detected (hasCalculator orgPage)"
    by (simp_all add: orgPage_def emptyPage_def notDetected_def noTool_def)
  from schema_type_flags [of orgPlatform orgBlock orgPage "''plumbing''" "''Austin''" "''Acme''"]
    e d org_facts
  show ?thesis by simp
qed

subsection \<open>Detector confidence\<close>

lemma pushed_nonempty:
  "length (pushed js registry h) > 0 \<longleftrightarrow> list_ex (\<lambda>(p, label). test js p h) registry"
  by (induction registry) (auto simp add: pushed_def)

text \<open>
  C6, as stated, fails: on a page that matches the pattern of the known calculator
  platforms, the calculator detector reports the confidence medium, not high.
\<close>

theorem calculator_vendor_counterexample:
  \<open>test calconicPlatform ''calconic%.com|outgrow%.co|calculoid%.com|ucalc%.pro'' calconicHtml
   \<and> types (checkForCalculator calconicPlatform calconicHtml) = [''Third-party Calculator Tool'']
   \<and> confidence (checkForCalculator calconicPlatform calconicHtml) = ''medium''
   \<and> confidence (checkForCalculator calconicPlatform calconicHtml) \<noteq> ''high''\<close>
  by (simp add: checkForCalculator_def pushed_def calculator_registry_def hasCalcForm_def
      hasCalcWidget_def hasCalcScript_def test_def match_def calconicPlatform_def tabled_def
      re_def Let_def)

text \<open>
  C6, amended. The chatbot and voice-agent detectors report the confidence high when
  some pattern of their registry matches and none otherwise. The calculator detector
  reports medium when any of its patterns matches, a vendor's or a structural one, and
  none otherwise; it never reports high.
\<close>

theorem detector_confidence:
  "confidence (checkForChatbot js h)
     = (if list_ex (\<lambda>(p, label). test js p h) chatbot_registry then ''high'' else ''none'')
   \<and> confidence (checkForVoiceAgent js h)
     = (if list_ex (\<lambda>(p, label). test js p h) voice_registry then ''high'' else ''none'')
   \<and> confidence (checkForCalculator js h)
     = (if list_ex (\<lambda>(p, label). test js p h) calculator_registry
           \<or> hasCalcForm js h \<or> hasCalcWidget js h \<or> hasCalcScript js h
        then ''medium'' else ''none'')"
proof -
  have c: "confidence (checkForCalculator js h)
     = (if list_ex (\<lambda>(p, label). test js p h) calculator_registry
           \<or> hasCalcForm js h \<or> hasCalcWidget js h \<or> hasCalcScript js h
        then ''medium'' else ''none'')"
    using pushed_nonempty [of js calculator_registry h]
    by (auto simp add: checkForCalculator_def Let_def)
  show ?thesis
    using pushed_nonempty [of js chatbot_registry h] pushed_nonempty [of js voice_registry h] c
    by (simp add: checkForChatbot_def checkForVoiceAgent_def Let_def)
qed

theorem detector_confidence_witness:
  "checkForChatbot intercomPlatform intercomHtml
     = \<lparr>detected = True, confidence = ''high'', providers = [''Intercom'']\<rparr>
   \<and> confidence (checkForVoiceAgent intercomPlatform intercomHtml) = ''none''
   \<and> confidence (checkForCalculator intercomPlatform intercomHtml) = ''none''
   \<and> confidence (checkForCalculator calconicPlatform calconicHtml) = ''medium''"
proof -
  have 1: "checkForChatbot intercomPlatform intercomHtml
     = \<lparr>detected = True, confidence = ''high'', providers = [''Intercom'']\<rparr>"
    by (simp add: checkForChatbot_def pushed_def chatbot_registry_def test_def match_def
        intercomPlatform_def tabled_def re_def Let_def)
  have 2: "\<not> list_ex (\<lambda>(p, label). test intercomPlatform p intercomHtml) voice_registry"
    by (simp add: voice_registry_def test_def match_def intercomPlatform_def tabled_def re_def)
  have 3: "\<not> (list_ex (\<lambda>(p, label). test intercomPlatform p intercomHtml) calculator_registry
           \<or> hasCalcForm intercomPlatform intercomHtml \<or> hasCalcWidget intercomPlatform intercomHtml
           \<or> hasCalcScript intercomPlatform intercomHtml)"
    by (simp add: calculator_registry_def hasCalcForm_def hasCalcWidget_def hasCalcScript_def
        test_def match_def intercomPlatform_def tabled_def re_def)
  have 4: "list_ex (\<lambda>(p, label). test calconicPlatform p calconicHtml) calculator_registry"
    by (simp add: calculator_registry_def test_def match_def calconicPlatform_def tabled_def re_def)
  from detector_confidence [of intercomPlatform intercomHtml]
    detector_confidence [of calconicPlatform calconicHtml] 1 2 3 4
  show ?thesis by simp
qed

subsection \<open>Alternative texts\<close>

lemma a11y_score_split:
  assumes "\<not> truthy (error d)"
  shows "score (analyzeAccessibility js d p)
           = min (lighthousePoints p + points (a11y_altText js (htmlOf d))
                  + sum_list (map points (tl (a11y_steps js (htmlOf d))))) 100"
    and "issues (analyzeAccessibility js d p)
           = raised (a11y_altText js (htmlOf d)) @ concat (map raised (tl (a11y_steps js (htmlOf d))))"
  using assms by (simp_all add: analyzeAccessibility_def a11y_steps_def Let_def)

text \<open>
  C8. For a page without error marker: without \<^verbatim>\<open><img>\<close> tags the ratio is 1 and
  the alt-text block gives 15 points and no issue; with images, the ratio is the share of
  images with a non-empty \<^verbatim>\<open>alt\<close>, and the block gives 15 points from 0.9 on, 8
  from 0.5 on, and below 0.5 no point and an issue. The scorer adds the block's points to
  its score and puts the block's issues first in its list.
\<close>

theorem alt_text_tiers:
  assumes "\<not> truthy (error d)"
  shows "(imgTags js (htmlOf d) = [] \<longrightarrow>
            altRatio js (htmlOf d) = 1
            \<and> a11y_altText js (htmlOf d) = \<lparr>points = 15, passed = True, raised = []\<rparr>)
       \<and> (imgTags js (htmlOf d) \<noteq> [] \<longrightarrow>
            altRatio js (htmlOf d)
              = real (length (imgsWithAlt js (htmlOf d))) / real (length (imgTags js (htmlOf d)))
            \<and> (altRatio js (htmlOf d) \<ge> 0.9 \<longrightarrow>
                  a11y_altText js (htmlOf d) = \<lparr>points = 15, passed = True, raised = []\<rparr>)
            \<and> (altRatio js (htmlOf d) \<ge> 0.5 \<and> altRatio js (htmlOf d) < 0.9 \<longrightarrow>
                  points (a11y_altText js (htmlOf d)) = 8)
            \<and> (altRatio js (htmlOf d) < 0.5 \<longrightarrow>
                  a11y_altText js (htmlOf d)
                    = \<lparr>points = 0, passed = False,
                       raised = [''Most images missing alt text - site not accessible to visually impaired users'']\<rparr>))
       \<and> score (analyzeAccessibility js d pageSpeedData)
           = min (lighthousePoints pageSpeedData + points (a11y_altText js (htmlOf d))
                  + sum_list (map points (tl (a11y_steps js (htmlOf d))))) 100
       \<and> issues (analyzeAccessibility js d pageSpeedData)
           = raised (a11y_altText js (htmlOf d)) @ concat (map raised (tl (a11y_steps js (htmlOf d))))"
proof -
  have r: "imgTags js (htmlOf d) = [] \<Longrightarrow> altRatio js (htmlOf d) = 1"
    by (simp add: altRatio_def)
  have "imgTags js (htmlOf d) = [] \<longrightarrow>
            altRatio js (htmlOf d) = 1
            \<and> a11y_altText js (htmlOf d) = \<lparr>points = 15, passed = True, raised = []\<rparr>"
    using r by (simp add: a11y_altText_def)
  moreover have "imgTags js (htmlOf d) \<noteq> [] \<longrightarrow>
            altRatio js (htmlOf d)
              = real (length (imgsWithAlt js (htmlOf d))) / real (length (imgTags js (htmlOf d)))"
    by (simp add: altRatio_def)
  moreover have "altRatio js (htmlOf d) \<ge> 0.9 \<longrightarrow>
                  a11y_altText js (htmlOf d) = \<lparr>points = 15, passed = True, raised = []\<rparr>"
    by (simp add: a11y_altText_def)
  moreover have "altRatio js (htmlOf d) \<ge> 0.5 \<and> altRatio js (htmlOf d) < 0.9 \<longrightarrow>
                  points (a11y_altText js (htmlOf d)) = 8"
    by (simp add: a11y_altText_def)
  moreover have "altRatio js (htmlOf d) < 0.5 \<longrightarrow>
                  a11y_altText js (htmlOf d)
                    = \<lparr>points = 0, passed = False,
                       raised = [''Most images missing alt text - site not accessible to visually impaired users'']\<rparr>"
    by (simp add: a11y_altText_def)
  ultimately show ?thesis
    using a11y_score_split [OF assms, of js pageSpeedData] by blast
qed

lemma decimal_50: "decimal 50 = ''50''"
  by (simp add: decimal.simps)

lemma alt_examples:
  \<open>imgTags silent [] = []\<close>
  \<open>imgTags halfAltPlatform halfAltHtml = [''<img src="a.png" alt="Logo">'', ''<img src="b.png">'']\<close>
  \<open>imgsWithAlt halfAltPlatform halfAltHtml = [''<img src="a.png" alt="Logo">'']\<close>
  \<open>imgTags noAltPlatform noAltHtml = [''<img src="b.png">'', ''<img src="c.png" alt="">'']\<close>
  \<open>imgsWithAlt noAltPlatform noAltHtml = []\<close>
  \<open>imgTags allAltPlatform allAltHtml = [''<img src="a.png" alt="Logo">'']\<close>
  \<open>imgsWithAlt allAltPlatform allAltHtml = [''<img src="a.png" alt="Logo">'']\<close>
  by (simp_all add: imgTags_def imgsWithAlt_def test_def match_def silent_def halfAltPlatform_def
      noAltPlatform_def allAltPlatform_def tabled_def imgPattern_def altPattern_def re_def
      halfAltHtml_def noAltHtml_def allAltHtml_def)

lemma alt_ratios:
  "altRatio silent [] = 1" "altRatio halfAltPlatform halfAltHtml = 1 / 2"
  "altRatio noAltPlatform noAltHtml = 0" "altRatio allAltPlatform allAltHtml = 1"
  by (simp_all add: altRatio_def alt_examples)

lemma alt_steps:
  "a11y_altText silent [] = \<lparr>points = 15, passed = True, raised = []\<rparr>"
  "a11y_altText halfAltPlatform halfAltHtml
     = \<lparr>points = 8, passed = False,
        raised = [''50% of images missing alt text - screen readers cannot describe them'']\<rparr>"
  "points (a11y_altText noAltPlatform noAltHtml) = 0"
  "a11y_altText allAltPlatform allAltHtml = \<lparr>points = 15, passed = True, raised = []\<rparr>"
  by (simp_all add: a11y_altText_def alt_ratios round_js_def decimal_50)

lemma other_steps:
  "sum_list (map points (tl (a11y_steps silent []))) = 15"
  "sum_list (map points (tl (a11y_steps halfAltPlatform halfAltHtml))) = 15"
  "sum_list (map points (tl (a11y_steps noAltPlatform noAltHtml))) = 15"
  "sum_list (map points (tl (a11y_steps allAltPlatform allAltHtml))) = 15"
  by (simp_all add: a11y_steps_def a11y_headingHierarchy_def a11y_formLabels_def
      a11y_skipLinks_def a11y_ariaLandmarks_def a11y_colorContrast_def a11y_focusIndicators_def
      a11y_langAttribute_def test_def match_def silent_def halfAltPlatform_def noAltPlatform_def
      allAltPlatform_def tabled_def imgPattern_def altPattern_def re_def halfAltHtml_def
      noAltHtml_def allAltHtml_def Let_def)

theorem alt_text_tiers_witness:
  "(\<not> truthy (error emptyPage) \<and> imgTags silent (htmlOf emptyPage) = []
    \<and> a11y_altText silent (htmlOf emptyPage) = \<lparr>points = 15, passed = True, raised = []\<rparr>
    \<and> score (analyzeAccessibility silent emptyPage None) = 30)
   \<and> (\<not> truthy (error (emptyPage\<lparr>html := Some allAltHtml\<rparr>))
    \<and> length (imgTags allAltPlatform allAltHtml) = 1
    \<and> altRatio allAltPlatform allAltHtml = 1
    \<and> a11y_altText allAltPlatform allAltHtml = \<lparr>points = 15, passed = True, raised = []\<rparr>
    \<and> score (analyzeAccessibility allAltPlatform (emptyPage\<lparr>html := Some allAltHtml\<rparr>) None)
        = 30)
   \<and> (\<not> truthy (error (emptyPage\<lparr>html := Some halfAltHtml\<rparr>))
    \<and> length (imgTags halfAltPlatform halfAltHtml) = 2
    \<and> length (imgsWithAlt halfAltPlatform halfAltHtml) = 1
    \<and> altRatio halfAltPlatform halfAltHtml = 1 / 2
    \<and> a11y_altText halfAltPlatform halfAltHtml
        = \<lparr>points = 8, passed = False,
           raised = [''50% of images missing alt text - screen readers cannot describe them'']\<rparr>
    \<and> score (analyzeAccessibility halfAltPlatform (emptyPage\<lparr>html := Some halfAltHtml\<rparr>) None)
        = 23)
   \<and> (\<not> truthy (error (emptyPage\<lparr>html := Some noAltHtml\<rparr>))
    \<and> length (imgTags noAltPlatform noAltHtml) = 2
    \<and> altRatio noAltPlatform noAltHtml = 0
    \<and> points (a11y_altText noAltPlatform noAltHtml) = 0
    \<and> score (analyzeAccessibility noAltPlatform (emptyPage\<lparr>html := Some noAltHtml\<rparr>) None)
        = 15)"
proof -
  have e: "\<not> truthy (error emptyPage)"
    "\<not> truthy (error (emptyPage\<lparr>html := Some halfAltHtml\<rparr>))"
    "\<not> truthy (error (emptyPage\<lparr>html := Some noAltHtml\<rparr>))"
    "\<not> truthy (error (emptyPage\<lparr>html := Some allAltHtml\<rparr>))"
    by (simp_all add: emptyPage_def truthy_def)
  have h: "htmlOf emptyPage = []" "htmlOf (emptyPage\<lparr>html := Some halfAltHtml\<rparr>) = halfAltHtml"
    "htmlOf (emptyPage\<lparr>html := Some noAltHtml\<rparr>) = noAltHtml"
    "htmlOf (emptyPage\<lparr>html := Some allAltHtml\<rparr>) = allAltHtml"
    by (simp_all add: htmlOf_def emptyPage_def)
  have l: "lighthousePoints None = 0"
    by (simp add: lighthousePoints_def accessibilityScore_def)
  from alt_text_tiers [OF e(1), of silent None]
    alt_text_tiers [OF e(2), of halfAltPlatform None]
    alt_text_tiers [OF e(3), of noAltPlatform None]
    alt_text_tiers [OF e(4), of allAltPlatform None]
  show ?thesis
    by (simp add: e h l alt_examples alt_ratios alt_steps other_steps)
qed

end
